theory Spec2Isabelle
  imports Complex_Main "HOL-Library.AList"
begin

section \<open>JavaScript values\<close>

text \<open>
  This theory models \<^verbatim>\<open>lib/media.js\<close>: the classification of the media elements of
  a Parsoid page (\<^verbatim>\<open>getMediaType\<close>), the filters \<^verbatim>\<open>isDisallowed\<close> and \<^verbatim>\<open>isTooSmall\<close>, the
  extraction \<^verbatim>\<open>getMediaItemInfoFromPage\<close> and the merge \<^verbatim>\<open>combineResponses\<close>. A string
  is a list of characters with codes below 256.
\<close>

text \<open>
  The exceptions the code of \<^verbatim>\<open>lib/media.js\<close> can raise: a property read on
  \<^verbatim>\<open>null\<close> or \<^verbatim>\<open>undefined\<close> (TypeError), \<^verbatim>\<open>JSON.parse\<close> on malformed text
  (SyntaxError) and \<^verbatim>\<open>decodeURIComponent\<close> on a malformed escape (URIError).
  A computation that can raise returns \<open>error + 'a\<close>, with \<open>Inl\<close> the exception.
\<close>

datatype error = TypeError | SyntaxError | URIError

definition bind :: "error + 'a \<Rightarrow> ('a \<Rightarrow> error + 'b) \<Rightarrow> error + 'b" where
  "bind m f = (case m of Inl e \<Rightarrow> Inl e | Inr x \<Rightarrow> f x)"

text \<open>
  A JavaScript number is a double: not-a-number, an infinity, or a finite value, which
  is a rational. Both zeros are \<open>Fin 0\<close>; nothing below tells them apart.
\<close>

datatype jsnum = NaN | Fin rat | PosInf | NegInf

datatype jsval =
    Undefined
  | Null
  | Bool bool
  | Number jsnum
  | String string
  | Array "jsval list"
  | Object "(string \<times> jsval) list"

text \<open>An object is the list of its own properties, in insertion order.\<close>

type_synonym obj = "(string \<times> jsval) list"

text \<open>ToBoolean, the test of \<^verbatim>\<open>if (v)\<close>, \<^verbatim>\<open>v && w\<close> and \<^verbatim>\<open>v || w\<close>.\<close>

fun truthy :: "jsval \<Rightarrow> bool" where
  "truthy Undefined = False"
| "truthy Null = False"
| "truthy (Bool b) = b"
| "truthy (Number NaN) = False"
| "truthy (Number (Fin q)) = (q \<noteq> 0)"
| "truthy (Number PosInf) = True"
| "truthy (Number NegInf) = True"
| "truthy (String s) = (s \<noteq> [])"
| "truthy (Array vs) = True"
| "truthy (Object ps) = True"

text \<open>
  The property read \<^verbatim>\<open>o.k\<close> on an object given by its property list: \<^verbatim>\<open>undefined\<close>
  when the object has no such property.
\<close>

definition getProp :: "obj \<Rightarrow> string \<Rightarrow> jsval" where
  "getProp ps k = (case map_of ps k of None \<Rightarrow> Undefined | Some v \<Rightarrow> v)"

text \<open>
  The property read \<^verbatim>\<open>v.k\<close> on a value that is neither \<^verbatim>\<open>null\<close> nor \<^verbatim>\<open>undefined\<close>,
  for a name \<open>k\<close> that no prototype defines (such as \<^verbatim>\<open>starttime\<close>).
\<close>

fun getMember :: "jsval \<Rightarrow> string \<Rightarrow> jsval" where
  "getMember (Object ps) k = getProp ps k"
| "getMember v k = Undefined"

text \<open>An attribute value as \<^verbatim>\<open>getAttribute\<close> returns it: a string, or \<^verbatim>\<open>null\<close>.\<close>

fun attrval :: "string option \<Rightarrow> jsval" where
  "attrval None = Null"
| "attrval (Some s) = String s"

section \<open>The document\<close>

text \<open>
  The tree \<^verbatim>\<open>domino.createDocument(html)\<close> returns, from its root element down. An
  element has its tag name (lower case, as the HTML parser stores it), its attributes
  and its children; text is a leaf. An \<open>element\<close> is a node together with its
  ancestors, nearest first, which \<^verbatim>\<open>closest\<close> walks.
\<close>

datatype node =
    Element string "(string \<times> string) list" "node list"
  | Text string

type_synonym element = "node \<times> node list"

fun getAttribute :: "node \<Rightarrow> string \<Rightarrow> string option" where
  "getAttribute (Element t as cs) name = map_of as name"
| "getAttribute (Text s) name = None"

fun hasTag :: "string list \<Rightarrow> node \<Rightarrow> bool" where
  "hasTag tags (Element t as cs) = (t \<in> set tags)"
| "hasTag tags (Text s) = False"

text \<open>The elements of a subtree in document order (preorder), the root included.\<close>

fun subtree :: "node \<Rightarrow> node list"
  and forest :: "node list \<Rightarrow> node list" where
  "subtree (Text s) = []"
| "subtree (Element t as cs) = Element t as cs # forest cs"
| "forest [] = []"
| "forest (c # cs) = subtree c @ forest cs"

text \<open>The same walk, each element with its ancestors.\<close>

fun located :: "node list \<Rightarrow> node \<Rightarrow> element list"
  and located_list :: "node list \<Rightarrow> node list \<Rightarrow> element list" where
  "located ancs (Text s) = []"
| "located ancs (Element t as cs) =
     (Element t as cs, ancs) # located_list (Element t as cs # ancs) cs"
| "located_list ancs [] = []"
| "located_list ancs (c # cs) = located ancs c @ located_list ancs cs"

text \<open>
  \<^verbatim>\<open>elem.querySelector(s)\<close> for a selector \<open>s\<close> that is a list of tag names
  (\<^verbatim>\<open>'img'\<close>, \<^verbatim>\<open>'audio, video'\<close>, \<^verbatim>\<open>'figcaption'\<close>): the first descendant, in document
  order, with one of these tags; \<open>None\<close> when there is none, where the DOM library
  (the first entry of its list of matches) gives \<^verbatim>\<open>undefined\<close>.
  \<^verbatim>\<open>getElementsByTagName\<close> lists them all.
\<close>

definition querySelector :: "string list \<Rightarrow> node \<Rightarrow> node option" where
  "querySelector tags e =
     (case e of Text s \<Rightarrow> None
      | Element t as cs \<Rightarrow> find (hasTag tags) (forest cs))"

definition getElementsByTagName :: "string \<Rightarrow> node \<Rightarrow> node list" where
  "getElementsByTagName tag e =
     (case e of Text s \<Rightarrow> []
      | Element t as cs \<Rightarrow> filter (hasTag [tag]) (forest cs))"

text \<open>
  \<^verbatim>\<open>elem.closest(s)\<close>: the element itself or its nearest ancestor matching the
  selector, given as a predicate on elements; \<^verbatim>\<open>null\<close> when none does.
\<close>

fun closest :: "(element \<Rightarrow> bool) \<Rightarrow> node \<Rightarrow> node list \<Rightarrow> element option" where
  "closest p n [] = (if p (n, []) then Some (n, []) else None)"
| "closest p n (a # ancs) = (if p (n, a # ancs) then Some (n, a # ancs) else closest p a ancs)"

text \<open>\<^verbatim>\<open>elem.className\<close>: the class attribute, or the empty string.\<close>

definition className :: "node \<Rightarrow> string" where
  "className n = (case getAttribute n ''class'' of None \<Rightarrow> [] | Some s \<Rightarrow> s)"

text \<open>\<^verbatim>\<open>s.includes(sub)\<close>: \<open>sub\<close> occurs in \<open>s\<close> as a contiguous substring.\<close>

fun includes_str :: "string \<Rightarrow> string \<Rightarrow> bool" where
  "includes_str [] sub = (sub = [])"
| "includes_str (c # cs) sub = (take (length sub) (c # cs) = sub \<or> includes_str cs sub)"

section \<open>Selectors and media types\<close>

text \<open>
  The module \<^verbatim>\<open>./selectors\<close> is not among the sources. Its four exports are
  parameters of the model: the three selector lists as the predicate "the element
  matches one of the selectors", which sees the element and its ancestors, and the
  class name of Mathoid images.
\<close>

record selectors =
  MediaSelectors :: "element \<Rightarrow> bool"
  MediaBlacklist :: "element \<Rightarrow> bool"
  SpokenWikipediaId :: "element \<Rightarrow> bool"
  MATHOID_IMG_CLASS :: string

text \<open>
  The six instances of class \<^verbatim>\<open>MediaType\<close>. The code compares them by identity; the
  fields are the functions \<open>selector\<close> (the tag names of the resource selector, or
  \<^verbatim>\<open>null\<close>) and \<open>name\<close>.
\<close>

datatype MediaType = Image | Video | Audio | Pronunciation | MathImage | Unknown

fun selector :: "MediaType \<Rightarrow> string list option" where
  "selector Image = Some [''img'']"
| "selector Video = Some [''video'']"
| "selector Audio = Some [''audio'', ''video'']"
| "selector Pronunciation = None"
| "selector MathImage = None"
| "selector Unknown = None"

fun name :: "MediaType \<Rightarrow> string" where
  "name Image = ''image''"
| "name Video = ''video''"
| "name Audio = ''audio''"
| "name Pronunciation = ''audio''"
| "name MathImage = ''image''"
| "name Unknown = ''unknown''"

definition isMathoidImage :: "selectors \<Rightarrow> node \<Rightarrow> bool" where
  "isMathoidImage sel elem = includes_str (className elem) (MATHOID_IMG_CLASS sel)"

text \<open>
  \<^verbatim>\<open>getMediaType\<close>. The attribute \<^verbatim>\<open>typeof\<close> counts when it is there and not empty;
  \<open>None\<close> is the \<^verbatim>\<open>undefined\<close> of falling off the end of the function.
\<close>

definition getMediaType :: "selectors \<Rightarrow> node \<Rightarrow> MediaType option" where
  "getMediaType sel elem =
     (case getAttribute elem ''typeof'' of
        Some (c # cs) \<Rightarrow>
          (let prefix = take 8 (c # cs) in
           if prefix = ''mw:Image'' then Some Image
           else if prefix = ''mw:Video'' then Some Video
           else if prefix = ''mw:Audio'' then Some Audio
           else Some Unknown)
      | _ \<Rightarrow>
          if getAttribute elem ''rel'' = Some ''mw:MediaLink'' then Some Pronunciation
          else if isMathoidImage sel elem then Some MathImage
          else None)"

text \<open>\<^verbatim>\<open>isDisallowed\<close>: the element or an ancestor matches a selector of the blacklist.\<close>

definition isDisallowed :: "selectors \<Rightarrow> element \<Rightarrow> bool" where
  "isDisallowed sel e = (closest (MediaBlacklist sel) (fst e) (snd e) \<noteq> None)"

section \<open>The runtime\<close>

text \<open>
  The built-in functions of the JavaScript runtime and of the DOM library that the code
  calls and that are not modelled here are parameters: \<^verbatim>\<open>JSON.parse\<close> and
  \<^verbatim>\<open>decodeURIComponent\<close> (which can raise), the conversion of a string to a number
  that \<^verbatim>\<open><\<close> applies to a string operand, the serialisation \<^verbatim>\<open>innerHTML\<close>, and the
  conversion of a value that is not a string to a property name.
\<close>

record runtime =
  JSON_parse :: "string \<Rightarrow> error + jsval"
  decodeURIComponent :: "string \<Rightarrow> error + string"
  ToNumber :: "string \<Rightarrow> jsnum"
  innerHTML :: "node \<Rightarrow> string"
  ToString :: "jsval \<Rightarrow> string"

text \<open>
  \<^verbatim>\<open>x < n\<close> for a number \<open>x\<close> and a finite \<open>n\<close>: false when \<open>x\<close> is not a number.
  The left operand of the comparisons in \<^verbatim>\<open>isTooSmall\<close> is what \<^verbatim>\<open>getAttribute\<close>
  returned: \<^verbatim>\<open>null\<close> converts to 0, a string as the runtime says.
\<close>

fun lessThan :: "jsnum \<Rightarrow> rat \<Rightarrow> bool" where
  "lessThan NaN n = False"
| "lessThan (Fin q) n = (q < n)"
| "lessThan PosInf n = False"
| "lessThan NegInf n = True"

fun toNumeric :: "runtime \<Rightarrow> string option \<Rightarrow> jsnum" where
  "toNumeric rt None = Fin 0"
| "toNumeric rt (Some s) = ToNumber rt s"

definition MIN_IMAGE_SIZE :: rat where
  "MIN_IMAGE_SIZE = 48"

definition isTooSmall :: "runtime \<Rightarrow> node \<Rightarrow> bool" where
  "isTooSmall rt img =
     (let width = getAttribute img ''width'';
          height = getAttribute img ''height''
      in lessThan (toNumeric rt width) MIN_IMAGE_SIZE
         \<or> lessThan (toNumeric rt height) MIN_IMAGE_SIZE)"

section \<open>Strings\<close>

text \<open>
  \<^verbatim>\<open>parseInt(a, 10)\<close> for what \<^verbatim>\<open>getAttribute\<close> returned: \<^verbatim>\<open>null\<close> is first converted
  to the string \<^verbatim>\<open>null\<close>. Leading white space is skipped, a sign is read, then the
  longest run of decimal digits; no digit gives \<open>NaN\<close>. The value is exact here; the
  runtime rounds it to a double, which changes integers above \<open>2^53\<close> only.
\<close>

definition isWhiteSpace :: "char \<Rightarrow> bool" where
  "isWhiteSpace c =
     (c \<in> set [CHR 0x09, CHR 0x0A, CHR 0x0B, CHR 0x0C, CHR 0x0D, CHR 0x20, CHR 0xA0])"

definition isDigit :: "char \<Rightarrow> bool" where
  "isDigit c = (c \<in> set ''0123456789'')"

definition digitsValue :: "string \<Rightarrow> nat" where
  "digitsValue ds = fold (\<lambda>c n. 10 * n + (of_char c - 48)) ds 0"

definition parseInt :: "string option \<Rightarrow> jsnum" where
  "parseInt a =
     (let s = dropWhile isWhiteSpace (case a of None \<Rightarrow> ''null'' | Some s \<Rightarrow> s);
          neg = (case s of [] \<Rightarrow> False | c # cs \<Rightarrow> c = CHR ''-'');
          t = (case s of [] \<Rightarrow> [] | c # cs \<Rightarrow> if c = CHR ''-'' \<or> c = CHR ''+'' then cs else s);
          ds = takeWhile isDigit t
      in if ds = [] then NaN
         else Fin (of_int (if neg then - int (digitsValue ds) else int (digitsValue ds))))"

text \<open>
  \<^verbatim>\<open>s.split(sep)\<close> for a separator that is not empty: the pieces of \<open>s\<close> between the
  occurrences of \<open>sep\<close>, found from the left. The result is never empty.
\<close>

function split :: "string \<Rightarrow> string \<Rightarrow> string list" where
  "split sep [] = [[]]"
| "split sep (c # cs) =
     (if sep \<noteq> [] \<and> take (length sep) (c # cs) = sep
      then [] # split sep (drop (length sep) (c # cs))
      else (case split sep cs of [] \<Rightarrow> [[c]] | p # ps \<Rightarrow> (c # p) # ps))"
  by pat_completeness auto
termination
  by (relation "measure (\<lambda>(sep, s). length s)") auto

text \<open>\<^verbatim>\<open>s.replace(/^.\//, '')\<close>: the dot matches any character but a line terminator.\<close>

fun stripRelative :: "string \<Rightarrow> string" where
  "stripRelative (c # d # cs) =
     (if c \<noteq> CHR 0x0A \<and> c \<noteq> CHR 0x0D \<and> d = CHR ''/'' then cs else c # d # cs)"
| "stripRelative s = s"

text \<open>\<^verbatim>\<open>textContent\<close>: the text of the descendants, in document order.\<close>

fun textContent :: "node \<Rightarrow> string"
  and textContent_list :: "node list \<Rightarrow> string" where
  "textContent (Text s) = s"
| "textContent (Element t as cs) = textContent_list cs"
| "textContent_list [] = []"
| "textContent_list (c # cs) = textContent c @ textContent_list cs"

text \<open>
  The class selector \<^verbatim>\<open>.gallery\<close> as the DOM library matches it: the name stands in
  the class attribute between spaces or the ends of the attribute.
\<close>

fun tokens :: "string \<Rightarrow> string list" where
  "tokens [] = [[]]"
| "tokens (c # cs) =
     (if c = CHR 0x20 then [] # tokens cs
      else (case tokens cs of [] \<Rightarrow> [[c]] | w # ws \<Rightarrow> (c # w) # ws))"

definition hasClass :: "string \<Rightarrow> element \<Rightarrow> bool" where
  "hasClass c e = (c \<noteq> [] \<and> c \<in> set (tokens (className (fst e))))"

section \<open>Extraction\<close>

text \<open>
  The callback of \<^verbatim>\<open>filter\<close> in \<^verbatim>\<open>getMediaItemInfoFromPage\<close>. Reading \<^verbatim>\<open>selector\<close> of
  an \<^verbatim>\<open>undefined\<close> media type raises, and so does \<open>isTooSmall\<close> of a resource that
  is not there.
\<close>

definition resourceOf :: "MediaType \<Rightarrow> node \<Rightarrow> node option" where
  "resourceOf mediaType elem =
     (case selector mediaType of None \<Rightarrow> None | Some tags \<Rightarrow> querySelector tags elem)"

definition keep :: "runtime \<Rightarrow> selectors \<Rightarrow> element \<Rightarrow> error + bool" where
  "keep rt sel e =
     (if isMathoidImage sel (fst e) then Inr True
      else
        (case getMediaType sel (fst e) of
           None \<Rightarrow> Inl TypeError
         | Some mediaType \<Rightarrow>
             (if mediaType \<noteq> Image then Inr (\<not> isDisallowed sel e)
              else
                (case resourceOf mediaType (fst e) of
                   None \<Rightarrow> Inl TypeError
                 | Some resource \<Rightarrow> Inr (\<not> isTooSmall rt resource \<and> \<not> isDisallowed sel e)))))"

text \<open>\<^verbatim>\<open>Array.prototype.filter\<close> and \<^verbatim>\<open>map\<close> with a callback that can raise.\<close>

fun filterM :: "('a \<Rightarrow> error + bool) \<Rightarrow> 'a list \<Rightarrow> error + 'a list" where
  "filterM f [] = Inr []"
| "filterM f (x # xs) =
     bind (f x) (\<lambda>b. bind (filterM f xs) (\<lambda>ys. Inr (if b then x # ys else ys)))"

fun mapM :: "('a \<Rightarrow> error + 'b) \<Rightarrow> 'a list \<Rightarrow> error + 'b list" where
  "mapM f [] = Inr []"
| "mapM f (x # xs) = bind (f x) (\<lambda>y. bind (mapM f xs) (\<lambda>ys. Inr (y # ys)))"

text \<open>
  One entry of \<^verbatim>\<open>sources\<close>. \<^verbatim>\<open>getAttribute('type')\<close> may be \<^verbatim>\<open>null\<close>, the second piece
  of the type and the second piece between its quotes may be \<^verbatim>\<open>undefined\<close>: calling
  \<^verbatim>\<open>split\<close> on any of them raises.
\<close>

definition orElse :: "jsval \<Rightarrow> jsval \<Rightarrow> jsval" where
  "orElse a b = (if truthy a then a else b)"

definition sourceEntry :: "node \<Rightarrow> error + jsval" where
  "sourceEntry source =
     (case getAttribute source ''type'' of
        None \<Rightarrow> Inl TypeError
      | Some ty \<Rightarrow>
          (case split ''; '' ty of
             mime # params # rest \<Rightarrow>
               (case split [CHR 0x22] params of
                  before # quoted # after \<Rightarrow>
                    Inr (Object
                      [(''url'', attrval (getAttribute source ''src'')),
                       (''mime'', String mime),
                       (''codecs'', Array (map String (split '', '' quoted))),
                       (''name'', attrval (getAttribute source ''data-title'')),
                       (''short_name'', attrval (getAttribute source ''data-shorttitle'')),
                       (''width'', orElse (attrval (getAttribute source ''data-file-width''))
                                          (attrval (getAttribute source ''data-width''))),
                       (''height'', orElse (attrval (getAttribute source ''data-file-height''))
                                           (attrval (getAttribute source ''data-height'')))])
                | _ \<Rightarrow> Inl TypeError)
           | _ \<Rightarrow> Inl TypeError))"

text \<open>
  The title, \<^verbatim>\<open>resource && decodeURIComponent(...)\<close>. The constant \<^verbatim>\<open>resource\<close> is
  \<^verbatim>\<open>null\<close> when the media type has no selector and \<^verbatim>\<open>undefined\<close> when the selector
  matches nothing, and the title is then that value; \<^verbatim>\<open>replace\<close> on a missing
  \<^verbatim>\<open>resource\<close> attribute raises.
\<close>

definition resourceTitle :: "runtime \<Rightarrow> MediaType \<Rightarrow> node \<Rightarrow> error + jsval" where
  "resourceTitle rt mediaType elem =
     (case selector mediaType of
        None \<Rightarrow> Inr Null
      | Some tags \<Rightarrow>
          (case querySelector tags elem of
             None \<Rightarrow> Inr Undefined
           | Some resource \<Rightarrow>
               (case getAttribute resource ''resource'' of
                  None \<Rightarrow> Inl TypeError
                | Some s \<Rightarrow>
                    bind (decodeURIComponent rt (stripRelative s)) (\<lambda>t. Inr (String t)))))"

text \<open>The object literal \<^verbatim>\<open>result\<close>, with \<^verbatim>\<open>original\<close> added only if it is defined.\<close>

definition resultObject ::
  "jsval \<Rightarrow> jsval \<Rightarrow> MediaType \<Rightarrow> jsval \<Rightarrow> jsval \<Rightarrow> jsval \<Rightarrow> jsval \<Rightarrow> jsval \<Rightarrow> jsval
     \<Rightarrow> jsval \<Rightarrow> jsval \<Rightarrow> obj" where
  "resultObject title sectionId mediaType caption startTime endTime thumbTime audioType
       galleryId sources original =
     [(''title'', title),
      (''section_id'', sectionId),
      (''type'', String (name mediaType)),
      (''caption'', caption),
      (''start_time'', startTime),
      (''end_time'', endTime),
      (''thumb_time'', thumbTime),
      (''audio_type'', audioType),
      (''gallery_id'', galleryId),
      (''sources'', sources),
      (''showInGallery'', Bool (mediaType = Image \<or> mediaType = Video))]
     @ (if truthy original then [(''original'', original)] else [])"

text \<open>
  The callback of \<^verbatim>\<open>map\<close>: the record of one element. Its constants \<^verbatim>\<open>caption\<close>,
  \<^verbatim>\<open>sectionId\<close> and \<^verbatim>\<open>galleryId\<close> come first, as functions of the element.
\<close>

definition caption :: "runtime \<Rightarrow> node \<Rightarrow> jsval" where
  "caption rt elem =
     (case querySelector [''figcaption''] elem of
        None \<Rightarrow> Undefined
      | Some figCaption \<Rightarrow>
          Object [(''html'', String (innerHTML rt figCaption)),
                  (''text'', String (textContent figCaption))])"

definition sectionId :: "element \<Rightarrow> jsval" where
  "sectionId e =
     (case closest (\<lambda>a. hasTag [''section''] (fst a)) (fst e) (snd e) of
        None \<Rightarrow> Undefined
      | Some section \<Rightarrow> Number (parseInt (getAttribute (fst section) ''data-mw-section-id'')))"

definition galleryId :: "element \<Rightarrow> jsval" where
  "galleryId e =
     (case closest (hasClass ''gallery'') (fst e) (snd e) of
        None \<Rightarrow> Undefined
      | Some gallery \<Rightarrow> attrval (getAttribute (fst gallery) ''id''))"

definition resultOf :: "runtime \<Rightarrow> selectors \<Rightarrow> element \<Rightarrow> error + obj" where
  "resultOf rt sel e =
     (case getMediaType sel (fst e) of
        None \<Rightarrow> Inl TypeError
      | Some mediaType \<Rightarrow>
          bind (resourceTitle rt mediaType (fst e)) (\<lambda>title.
            if mediaType = Video then
              bind (JSON_parse rt
                     (case getAttribute (fst e) ''data-mw'' of None \<Rightarrow> ''null'' | Some s \<Rightarrow> s))
                (\<lambda>dataMw.
              bind (mapM sourceEntry (getElementsByTagName ''source'' (fst e))) (\<lambda>sources.
                Inr (resultObject title (sectionId e) mediaType (caption rt (fst e))
                      (if truthy dataMw then getMember dataMw ''starttime'' else Undefined)
                      (if truthy dataMw then getMember dataMw ''endtime'' else Undefined)
                      (if truthy dataMw then getMember dataMw ''thumbtime'' else Undefined)
                      Undefined (galleryId e) (Array sources) Undefined)))
            else if mediaType = Pronunciation then
              bind (decodeURIComponent rt
                     (''File:'' @ (case getAttribute (fst e) ''title'' of
                                     None \<Rightarrow> ''null'' | Some s \<Rightarrow> s)))
                (\<lambda>t.
                Inr (resultObject (String t) (sectionId e) mediaType (caption rt (fst e))
                      Undefined Undefined Undefined
                      (String ''pronunciation'') (galleryId e) Undefined Undefined))
            else if mediaType = Audio then
              Inr (resultObject title (sectionId e) mediaType (caption rt (fst e))
                    Undefined Undefined Undefined
                    (String (if closest (SpokenWikipediaId sel) (fst e) (snd e) \<noteq> None
                             then ''spoken'' else ''generic''))
                    (galleryId e) Undefined Undefined)
            else if mediaType = MathImage then
              Inr (resultObject title (sectionId e) mediaType (caption rt (fst e))
                    Undefined Undefined Undefined Undefined (galleryId e) Undefined
                    (Object [(''source'', attrval (getAttribute (fst e) ''src'')),
                             (''mime'', String ''image/svg'')]))
            else
              Inr (resultObject title (sectionId e) mediaType (caption rt (fst e))
                    Undefined Undefined Undefined Undefined (galleryId e) Undefined
                    Undefined)))"

text \<open>
  A property read \<^verbatim>\<open>v.k\<close> that raises on \<^verbatim>\<open>null\<close> and \<^verbatim>\<open>undefined\<close>, and the key of
  deduplication, \<^verbatim>\<open>elem.title || elem.original.source\<close>.
\<close>

fun readMember :: "jsval \<Rightarrow> string \<Rightarrow> error + jsval" where
  "readMember Undefined k = Inl TypeError"
| "readMember Null k = Inl TypeError"
| "readMember v k = Inr (getMember v k)"

definition uniqKey :: "obj \<Rightarrow> error + jsval" where
  "uniqKey elem =
     (if truthy (getProp elem ''title'') then Inr (getProp elem ''title'')
      else readMember (getProp elem ''original'') ''source'')"

text \<open>
  \<^verbatim>\<open>_.uniq(array, iteratee)\<close> of the underscore library: the loop keeps the keys it
  has seen and pushes a value when its key is new.
\<close>

fun uniq :: "('a \<Rightarrow> error + 'k) \<Rightarrow> 'a list \<Rightarrow> 'k list \<Rightarrow> error + 'a list" where
  "uniq iteratee [] seen = Inr []"
| "uniq iteratee (x # xs) seen =
     bind (iteratee x) (\<lambda>computed.
       if computed \<in> set seen then uniq iteratee xs seen
       else bind (uniq iteratee xs (seen @ [computed])) (\<lambda>result. Inr (x # result)))"

text \<open>
  \<^verbatim>\<open>doc.querySelectorAll(MediaSelectors.join())\<close>: the elements of the document that
  match, in document order.
\<close>

definition querySelectorAll :: "(element \<Rightarrow> bool) \<Rightarrow> node \<Rightarrow> element list" where
  "querySelectorAll p doc = filter p (located [] doc)"

definition getMediaItemInfoFromPage :: "runtime \<Rightarrow> selectors \<Rightarrow> node \<Rightarrow> error + obj list" where
  "getMediaItemInfoFromPage rt sel doc =
     bind (filterM (keep rt sel) (querySelectorAll (MediaSelectors sel) doc)) (\<lambda>elems.
     bind (mapM (resultOf rt sel) elems) (\<lambda>results.
     uniq uniqKey results []))"

section \<open>Merge\<close>

text \<open>
  \<^verbatim>\<open>combineResponses\<close> changes the records it is given, so the records live in a store
  and the list holds their addresses. \<^verbatim>\<open>apiResponse\<close> maps a title to the object
  stored under it.
\<close>

type_synonym store = "nat \<Rightarrow> obj"

type_synonym apiResponse = "string \<Rightarrow> obj option"

text \<open>
  \<^verbatim>\<open>Object.assign(target, source)\<close>, with an \<^verbatim>\<open>undefined\<close> source skipped. A new
  property goes to the end of the list; the place JavaScript gives to a name that is an
  array index is not modelled.
\<close>

definition Object_assign :: "obj \<Rightarrow> obj option \<Rightarrow> obj" where
  "Object_assign target source =
     (case source of
        None \<Rightarrow> target
      | Some ps \<Rightarrow> fold (\<lambda>p. AList.update (fst p) (snd p)) ps target)"

definition propertyKey :: "runtime \<Rightarrow> jsval \<Rightarrow> string" where
  "propertyKey rt v = (case v of String s \<Rightarrow> s | _ \<Rightarrow> ToString rt v)"

text \<open>The callback of \<^verbatim>\<open>pageMediaList.map\<close>, on the content of one record.\<close>

definition combineItem :: "runtime \<Rightarrow> apiResponse \<Rightarrow> obj \<Rightarrow> obj" where
  "combineItem rt api mediaItem =
     (let merged =
            (if truthy (getProp mediaItem ''title'')
             then Object_assign mediaItem (api (propertyKey rt (getProp mediaItem ''title'')))
             else mediaItem);
          untitled = AList.delete ''title'' merged
      in if truthy (getProp untitled ''sources'') then AList.delete ''original'' untitled
         else untitled)"

fun combineResponses ::
  "runtime \<Rightarrow> apiResponse \<Rightarrow> store \<Rightarrow> nat list \<Rightarrow> store \<times> nat list" where
  "combineResponses rt api h [] = (h, [])"
| "combineResponses rt api h (a # as) =
     (case combineResponses rt api (h(a := combineItem rt api (h a))) as of
        (h', rs) \<Rightarrow> (h', a # rs))"

section \<open>Notions of the specification\<close>

text \<open>
  The elements that survive the filter, in document order: the value of \<^verbatim>\<open>elems\<close>
  when no callback of the filter raised.
\<close>

definition survivors :: "runtime \<Rightarrow> selectors \<Rightarrow> node \<Rightarrow> element list" where
  "survivors rt sel doc =
     filter (\<lambda>e. keep rt sel e = Inr True) (querySelectorAll (MediaSelectors sel) doc)"

text \<open>
  The position, in document order, of the first matching and surviving element whose
  record has the deduplication key of the record \<open>r\<close>.
\<close>

definition sourcePosition :: "runtime \<Rightarrow> selectors \<Rightarrow> node \<Rightarrow> obj \<Rightarrow> nat" where
  "sourcePosition rt sel doc r =
     length (takeWhile
       (\<lambda>e. \<not> (MediaSelectors sel e \<and> keep rt sel e = Inr True
                 \<and> bind (resultOf rt sel e) uniqKey = uniqKey r))
       (located [] doc))"

text \<open>
  The key of deduplication in the words of the specification: the title if the record
  has one, else the source of \<^verbatim>\<open>original\<close>.
\<close>

definition dedupKey :: "obj \<Rightarrow> jsval" where
  "dedupKey r =
     (if truthy (getProp r ''title'') then getProp r ''title''
      else getMember (getProp r ''original'') ''source'')"

text \<open>
  Deduplication in the words of the specification: the first occurrence of a key stays,
  every later element with that key is dropped.
\<close>

fun dedupBy :: "('a \<Rightarrow> 'k) \<Rightarrow> 'a list \<Rightarrow> 'a list" where
  "dedupBy key [] = []"
| "dedupBy key (x # xs) = x # dedupBy key (filter (\<lambda>y. key y \<noteq> key x) xs)"


section \<open>Instances for the examples\<close>

text \<open>
  Modelled from the spec: the module \<^verbatim>\<open>./selectors\<close> is missing. The examples below
  use selectors as sections 3 and 4 of the specification describe them: a candidate has
  a \<^verbatim>\<open>typeof\<close> starting with \<^verbatim>\<open>mw:Image\<close>, \<^verbatim>\<open>mw:Video\<close> or \<^verbatim>\<open>mw:Audio\<close>, or
  \<^verbatim>\<open>rel="mw:MediaLink"\<close>, or is an \<^verbatim>\<open>img\<close> of the Mathoid class; the blacklist is a set
  of class names; the spoken-Wikipedia container is found by its id. The theorems hold
  for every value of these parameters.
\<close>

text \<open>The example pages below are given from their \<^verbatim>\<open>body\<close> element down.\<close>

definition startsWith :: "string \<Rightarrow> string \<Rightarrow> bool" where
  "startsWith s p = (take (length p) s = p)"

definition exampleSelectors :: selectors where
  "exampleSelectors =
     \<lparr> MediaSelectors = (\<lambda>e.
          (case getAttribute (fst e) ''typeof'' of
             None \<Rightarrow> False
           | Some t \<Rightarrow> startsWith t ''mw:Image'' \<or> startsWith t ''mw:Video''
                        \<or> startsWith t ''mw:Audio'')
          \<or> getAttribute (fst e) ''rel'' = Some ''mw:MediaLink''
          \<or> (hasTag [''img''] (fst e) \<and> hasClass ''mwe-math-fallback-image-inline'' e)),
       MediaBlacklist = (\<lambda>e. hasClass ''metadata'' e \<or> hasClass ''noviewer'' e),
       SpokenWikipediaId = (\<lambda>e. getAttribute (fst e) ''id'' = Some ''section_SpokenWikipedia''),
       MATHOID_IMG_CLASS = ''mwe-math-fallback-image-inline'' \<rparr>"

text \<open>
  The runtime's answers on the strings the examples use: \<^verbatim>\<open>JSON.parse\<close> of the text
  \<^verbatim>\<open>null\<close> and of a lone brace; \<^verbatim>\<open>decodeURIComponent\<close> of a string without a percent
  sign, which it leaves as it is; the numbers that the digit strings \<^verbatim>\<open>100\<close> and
  \<^verbatim>\<open>20\<close>, the empty string and a word denote; \<^verbatim>\<open>innerHTML\<close> of an element that holds
  plain text only. The examples reach no other case of these tables.
\<close>

definition exampleRuntime :: runtime where
  "exampleRuntime =
     \<lparr> JSON_parse = (\<lambda>s. if s = ''null'' then Inr Null else Inl SyntaxError),
       decodeURIComponent = (\<lambda>s. if CHR ''%'' \<in> set s then Inl URIError else Inr s),
       ToNumber = (\<lambda>s.
          if s = ''100'' then Fin 100 else if s = ''20'' then Fin 20
          else if s = [] then Fin 0 else NaN),
       innerHTML = textContent,
       ToString = (\<lambda>v. ''[object Object]'') \<rparr>"

text \<open>
  A page with four images and a formula. The third image is 20 pixels wide; the fourth
  shows the file of the first.
\<close>

definition exampleDoc :: node where
  "exampleDoc =
     Element ''body'' []
       [Element ''section'' [(''data-mw-section-id'', ''0'')]
          [Element ''figure'' [(''typeof'', ''mw:Image/Thumb'')]
             [Element ''a'' [(''href'', ''./File:Foo.jpg'')]
                [Element ''img''
                   [(''resource'', ''./File:Foo.jpg''), (''width'', ''100''), (''height'', ''100'')] []],
              Element ''figcaption'' [] [Text ''Hi'']],
           Element ''figure'' [(''typeof'', ''mw:Image'')]
             [Element ''img''
                [(''resource'', ''./File:Bar.jpg''), (''width'', ''100''), (''height'', ''100'')] []],
           Element ''figure'' [(''typeof'', ''mw:Image'')]
             [Element ''img''
                [(''resource'', ''./File:Foo.jpg''), (''width'', ''20''), (''height'', ''100'')] []],
           Element ''figure'' [(''typeof'', ''mw:Image'')]
             [Element ''img''
                [(''resource'', ''./File:Foo.jpg''), (''width'', ''100''), (''height'', ''100'')] []],
           Element ''img''
             [(''class'', ''mwe-math-fallback-image-inline''), (''src'', ''/math/render/svg/1'')] []]]"

definition exampleFoo :: obj where
  "exampleFoo =
     [(''title'', String ''File:Foo.jpg''), (''section_id'', Number (Fin 0)),
      (''type'', String ''image''),
      (''caption'', Object [(''html'', String ''Hi''), (''text'', String ''Hi'')]),
      (''start_time'', Undefined), (''end_time'', Undefined), (''thumb_time'', Undefined),
      (''audio_type'', Undefined), (''gallery_id'', Undefined), (''sources'', Undefined),
      (''showInGallery'', Bool True)]"

definition exampleBar :: obj where
  "exampleBar =
     [(''title'', String ''File:Bar.jpg''), (''section_id'', Number (Fin 0)),
      (''type'', String ''image''), (''caption'', Undefined),
      (''start_time'', Undefined), (''end_time'', Undefined), (''thumb_time'', Undefined),
      (''audio_type'', Undefined), (''gallery_id'', Undefined), (''sources'', Undefined),
      (''showInGallery'', Bool True)]"

definition exampleMath :: obj where
  "exampleMath =
     [(''title'', Null), (''section_id'', Number (Fin 0)),
      (''type'', String ''image''), (''caption'', Undefined),
      (''start_time'', Undefined), (''end_time'', Undefined), (''thumb_time'', Undefined),
      (''audio_type'', Undefined), (''gallery_id'', Undefined), (''sources'', Undefined),
      (''showInGallery'', Bool False),
      (''original'', Object [(''source'', String ''/math/render/svg/1''),
                             (''mime'', String ''image/svg'')])]"

definition exampleFooAgain :: obj where
  "exampleFooAgain =
     [(''title'', String ''File:Foo.jpg''), (''section_id'', Number (Fin 0)),
      (''type'', String ''image''), (''caption'', Undefined),
      (''start_time'', Undefined), (''end_time'', Undefined), (''thumb_time'', Undefined),
      (''audio_type'', Undefined), (''gallery_id'', Undefined), (''sources'', Undefined),
      (''showInGallery'', Bool True)]"

text \<open>
  A page with a figure inside a section that has no id, one inside a section whose id
  is a word, and one outside any section.
\<close>

definition exampleSections :: node where
  "exampleSections =
     Element ''body'' []
       [Element ''section'' []
          [Element ''figure'' [(''typeof'', ''mw:Image'')]
             [Element ''img''
                [(''resource'', ''./File:A.jpg''), (''width'', ''100''), (''height'', ''100'')] []]],
        Element ''section'' [(''data-mw-section-id'', ''intro'')]
          [Element ''figure'' [(''typeof'', ''mw:Image'')]
             [Element ''img''
                [(''resource'', ''./File:C.jpg''), (''width'', ''100''), (''height'', ''100'')] []]],
        Element ''figure'' [(''typeof'', ''mw:Image'')]
          [Element ''img''
             [(''resource'', ''./File:B.jpg''), (''width'', ''100''), (''height'', ''100'')] []]]"




text \<open>
  Pages with a sound figure followed by a figure that is broken: an image without its
  \<^verbatim>\<open>img\<close>, a video without its \<^verbatim>\<open>video\<close>, a video whose \<^verbatim>\<open>data-mw\<close> is a lone brace.
\<close>

definition exampleFigure :: node where
  "exampleFigure =
     Element ''figure'' [(''typeof'', ''mw:Image'')]
       [Element ''img''
          [(''resource'', ''./File:Foo.jpg''), (''width'', ''100''), (''height'', ''100'')] []]"

definition exampleNoImg :: node where
  "exampleNoImg =
     Element ''body'' []
       [exampleFigure,
        Element ''figure'' [(''typeof'', ''mw:Image'')] [Element ''figcaption'' [] [Text ''Gone'']]]"

definition exampleNoVideo :: node where
  "exampleNoVideo =
     Element ''body'' []
       [exampleFigure,
        Element ''figure'' [(''typeof'', ''mw:Video'')] [Element ''figcaption'' [] [Text ''Gone'']]]"

definition exampleBadJson :: node where
  "exampleBadJson =
     Element ''body'' []
       [exampleFigure,
        Element ''figure'' [(''typeof'', ''mw:Video''), (''data-mw'', ''{'')]
          [Element ''video'' [(''resource'', ''./File:Clip.ogv'')] []]]"

text \<open>
  A video with two sources as Parsoid writes them; a source whose type has a semicolon
  without a space and codecs without spaces; a video whose source names no codecs.
\<close>

definition exampleSourceWebm :: node where
  "exampleSourceWebm =
     Element ''source''
       [(''src'', ''//upload.example/Clip.ogv.480p.webm''),
        (''type'', ''video/webm; codecs=\"vp8, vorbis\"''),
        (''data-title'', ''WebM 480P''), (''data-shorttitle'', ''WebM 480P''),
        (''data-width'', ''854''), (''data-height'', ''480'')] []"

definition exampleSourceOgg :: node where
  "exampleSourceOgg =
     Element ''source''
       [(''src'', ''//upload.example/Clip.ogv''),
        (''type'', ''video/ogg; codecs=\"theora, vorbis\"''),
        (''data-title'', ''Original Ogg file''), (''data-shorttitle'', ''Ogg source''),
        (''data-file-width'', ''1280''), (''data-file-height'', ''720''),
        (''data-width'', ''0''), (''data-height'', ''0'')] []"


definition exampleVideo :: node where
  "exampleVideo =
     Element ''body'' []
       [Element ''figure'' [(''typeof'', ''mw:Video/Thumb'')]
          [Element ''span'' []
             [Element ''video'' [(''resource'', ''./File:Clip.ogv'')]
                [exampleSourceWebm, exampleSourceOgg]]]]"


text \<open>
  A video record, a metadata map with an entry for the image and one for the video, and
  two stores that hold the same three records at different addresses.
\<close>

definition exampleClip :: obj where
  "exampleClip =
     [(''title'', String ''File:Clip.ogv''), (''section_id'', Undefined),
      (''type'', String ''video''), (''caption'', Undefined),
      (''start_time'', Undefined), (''end_time'', Undefined), (''thumb_time'', Undefined),
      (''audio_type'', Undefined), (''gallery_id'', Undefined),
      (''sources'', Array []),
      (''showInGallery'', Bool True)]"

definition exampleApi :: apiResponse where
  "exampleApi =
     map_of
       [(''File:Foo.jpg'', [(''description'', String ''A foo'')]),
        (''File:Clip.ogv'',
           [(''original'', Object [(''source'', String ''//upload.example/Clip.ogv'')]),
            (''description'', String ''A clip'')])]"

definition exampleStore :: store where
  "exampleStore = (\<lambda>a. [])(0 := exampleFoo, 1 := exampleClip, 2 := exampleMath)"

definition exampleStore2 :: store where
  "exampleStore2 = (\<lambda>a. exampleBar)(7 := exampleFoo, 5 := exampleClip, 3 := exampleMath)"

section \<open>Lists, callbacks that raise, and deduplication\<close>

lemma bind_Inl [simp]: "bind (Inl e) f = Inl e"
  by (simp add: bind_def)

lemma bind_Inr [simp]: "bind (Inr x) f = f x"
  by (simp add: bind_def)

lemma bind_eq_Inr: "bind m f = Inr y \<longleftrightarrow> (\<exists>x. m = Inr x \<and> f x = Inr y)"
  by (cases m) simp_all

lemma mapM_eq_Inr: "mapM f xs = Inr ys \<longleftrightarrow> map f xs = map Inr ys"
proof (induction xs arbitrary: ys)
  case Nil
  then show ?case by auto
next
  case (Cons x xs)
  show ?case
  proof
    assume "mapM f (x # xs) = Inr ys"
    then obtain y zs where "f x = Inr y" "mapM f xs = Inr zs" "ys = y # zs"
      by (auto simp: bind_eq_Inr)
    with Cons.IH [of zs] show "map f (x # xs) = map Inr ys" by simp
  next
    assume "map f (x # xs) = map Inr ys"
    then obtain y zs where "ys = y # zs" "f x = Inr y" "map f xs = map Inr zs"
      by (cases ys) auto
    with Cons.IH [of zs] show "mapM f (x # xs) = Inr ys" by simp
  qed
qed

lemma filterM_Inr:
  "filterM f xs = Inr ys \<Longrightarrow>
     (\<forall>x \<in> set xs. \<exists>b. f x = Inr b) \<and> ys = filter (\<lambda>x. f x = Inr True) xs"
proof (induction xs arbitrary: ys)
  case Nil
  then show ?case by simp
next
  case (Cons x xs)
  from Cons.prems obtain b zs where b: "f x = Inr b" and zs: "filterM f xs = Inr zs"
    and ys: "ys = (if b then x # zs else zs)"
    by (auto simp: bind_eq_Inr)
  from Cons.IH [OF zs] b ys show ?case by auto
qed

lemma uniq_Inr:
  "uniq f xs seen = Inr ys \<Longrightarrow>
     (\<forall>x \<in> set xs. \<exists>k. f x = Inr k)
     \<and> ys = dedupBy (\<lambda>x. projr (f x)) (filter (\<lambda>x. projr (f x) \<notin> set seen) xs)"
proof (induction xs arbitrary: seen ys)
  case Nil
  then show ?case by simp
next
  case (Cons x xs)
  from Cons.prems obtain k where k: "f x = Inr k"
    by (auto simp: bind_eq_Inr)
  show ?case
  proof (cases "k \<in> set seen")
    case True
    with Cons.prems k have "uniq f xs seen = Inr ys" by simp
    from Cons.IH [OF this] k True show ?thesis by simp
  next
    case False
    with Cons.prems k obtain zs where zs: "uniq f xs (seen @ [k]) = Inr zs" and ys: "ys = x # zs"
      by (auto simp: bind_eq_Inr)
    have "filter (\<lambda>y. projr (f y) \<noteq> k) (filter (\<lambda>x. projr (f x) \<notin> set seen) xs)
        = filter (\<lambda>x. projr (f x) \<notin> set (seen @ [k])) xs"
      by (auto intro: filter_cong)
    with Cons.IH [OF zs] k False ys show ?thesis by simp
  qed
qed

lemma dedupBy_map: "dedupBy key (map g xs) = map g (dedupBy (\<lambda>x. key (g x)) xs)"
  by (induction "\<lambda>x. key (g x)" xs rule: dedupBy.induct) (simp_all add: filter_map o_def)

lemma set_dedupBy_subset: "set (dedupBy key xs) \<subseteq> set xs"
  by (induction key xs rule: dedupBy.induct) auto

lemma keys_dedupBy: "key ` set (dedupBy key xs) = key ` set xs"
  by (induction key xs rule: dedupBy.induct) auto

lemma distinct_dedupBy: "distinct (map key (dedupBy key xs))"
proof (induction key xs rule: dedupBy.induct)
  case (1 key)
  then show ?case by simp
next
  case (2 key x xs)
  have "key x \<notin> key ` set (dedupBy key (filter (\<lambda>y. key y \<noteq> key x) xs))"
    using set_dedupBy_subset [of key "filter (\<lambda>y. key y \<noteq> key x) xs"] by auto
  with 2 show ?case by simp
qed

lemma find_dedupBy:
  "a \<in> set (dedupBy key xs) \<Longrightarrow> find (\<lambda>x. key x = key a) xs = Some a"
proof (induction key xs rule: dedupBy.induct)
  case (1 key)
  then show ?case by simp
next
  case (2 key x xs)
  show ?case
  proof (cases "a = x")
    case True
    then show ?thesis by simp
  next
    case False
    with "2.prems" have a: "a \<in> set (dedupBy key (filter (\<lambda>y. key y \<noteq> key x) xs))" by simp
    then have ne: "key a \<noteq> key x"
      using set_dedupBy_subset [of key "filter (\<lambda>y. key y \<noteq> key x) xs"] by auto
    have "find (\<lambda>y. key y = key a) (filter (\<lambda>y. key y \<noteq> key x) xs)
        = find (\<lambda>y. key y = key a) xs"
      using ne by (induction xs) auto
    with "2.IH" [OF a] ne show ?thesis by auto
  qed
qed


lemma find_filter: "find Q (filter P xs) = find (\<lambda>x. P x \<and> Q x) xs"
  by (induction xs) auto

lemma find_takeWhile:
  "find Q xs = Some a \<Longrightarrow>
     length (takeWhile (\<lambda>x. \<not> Q x) xs) < length xs
     \<and> xs ! length (takeWhile (\<lambda>x. \<not> Q x) xs) = a"
  by (induction xs) (auto split: if_splits)

lemma sorted_first_positions:
  "sorted_wrt
     (\<lambda>a b. length (takeWhile (\<lambda>e. \<not> (P e \<and> key e = key a)) D)
            < length (takeWhile (\<lambda>e. \<not> (P e \<and> key e = key b)) D))
     (dedupBy key (filter P D))"
proof (induction D arbitrary: P)
  case Nil
  then show ?case by simp
next
  case (Cons d D)
  show ?case
  proof (cases "P d")
    case False
    have "sorted_wrt
       (\<lambda>a b. length (takeWhile (\<lambda>e. \<not> (P e \<and> key e = key a)) D)
              < length (takeWhile (\<lambda>e. \<not> (P e \<and> key e = key b)) D))
       (dedupBy key (filter P D))"
      by (rule Cons.IH)
    then show ?thesis
      using False by simp
  next
    case True
    let ?P' = "\<lambda>x. P x \<and> key x \<noteq> key d"
    let ?F = "dedupBy key (filter ?P' D)"
    have sub: "key a \<noteq> key d" if "a \<in> set ?F" for a
      using that set_dedupBy_subset [of key "filter ?P' D"] by auto
    have ih: "sorted_wrt
       (\<lambda>a b. length (takeWhile (\<lambda>e. \<not> (?P' e \<and> key e = key a)) D)
              < length (takeWhile (\<lambda>e. \<not> (?P' e \<and> key e = key b)) D)) ?F"
      by (rule Cons.IH)
    have eq: "(\<lambda>e. \<not> (?P' e \<and> key e = key a)) = (\<lambda>e. \<not> (P e \<and> key e = key a))"
      if "a \<in> set ?F" for a
      using sub [OF that] by auto
    have tail: "sorted_wrt
       (\<lambda>a b. length (takeWhile (\<lambda>e. \<not> (P e \<and> key e = key a)) (d # D))
              < length (takeWhile (\<lambda>e. \<not> (P e \<and> key e = key b)) (d # D))) ?F"
    proof (rule sorted_wrt_mono_rel [OF _ ih])
      fix a b
      assume a: "a \<in> set ?F" and b: "b \<in> set ?F"
        and lt: "length (takeWhile (\<lambda>e. \<not> (?P' e \<and> key e = key a)) D)
               < length (takeWhile (\<lambda>e. \<not> (?P' e \<and> key e = key b)) D)"
      from lt have "length (takeWhile (\<lambda>e. \<not> (P e \<and> key e = key a)) D)
               < length (takeWhile (\<lambda>e. \<not> (P e \<and> key e = key b)) D)"
        by (simp only: eq [OF a] eq [OF b])
      moreover have "key d \<noteq> key a" "key d \<noteq> key b"
        using sub [OF a] sub [OF b] by auto
      ultimately show "length (takeWhile (\<lambda>e. \<not> (P e \<and> key e = key a)) (d # D))
               < length (takeWhile (\<lambda>e. \<not> (P e \<and> key e = key b)) (d # D))"
        by simp
    qed
    have head: "length (takeWhile (\<lambda>e. \<not> (P e \<and> key e = key d)) (d # D))
        < length (takeWhile (\<lambda>e. \<not> (P e \<and> key e = key b)) (d # D))" if "b \<in> set ?F" for b
    proof -
      have "key d \<noteq> key b" using sub [OF that] by auto
      with True show ?thesis by simp
    qed
    have "dedupBy key (filter P (d # D)) = d # dedupBy key (filter (\<lambda>y. key y \<noteq> key d) (filter P D))"
      using True by simp
    also have "filter (\<lambda>y. key y \<noteq> key d) (filter P D) = filter ?P' D"
      by simp
    finally have "dedupBy key (filter P (d # D)) = d # ?F" .
    moreover have "sorted_wrt
       (\<lambda>a b. length (takeWhile (\<lambda>e. \<not> (P e \<and> key e = key a)) (d # D))
              < length (takeWhile (\<lambda>e. \<not> (P e \<and> key e = key b)) (d # D))) (d # ?F)"
      unfolding sorted_wrt.simps using head tail by blast
    ultimately show ?thesis by (simp only:)
  qed
qed

lemma map_eq_map_Inr:
  assumes "map f xs = map Inr ys"
  shows "ys = map (\<lambda>x. projr (f x)) xs" and "\<forall>x \<in> set xs. f x = Inr (projr (f x))"
proof -
  have "map projr (map f xs) = map projr (map Inr ys)"
    using assms by simp
  then show "ys = map (\<lambda>x. projr (f x)) xs"
    by (simp add: o_def)
  show "\<forall>x \<in> set xs. f x = Inr (projr (f x))"
  proof
    fix x assume "x \<in> set xs"
    then have "f x \<in> set (map f xs)" by simp
    then have "f x \<in> set (map Inr ys)" using assms by simp
    then show "f x = Inr (projr (f x))" by auto
  qed
qed

lemma getMediaItemInfoFromPage_Inr:
  assumes "getMediaItemInfoFromPage rt sel doc = Inr out"
  shows "(\<forall>e \<in> set (querySelectorAll (MediaSelectors sel) doc). \<exists>b. keep rt sel e = Inr b)
       \<and> (\<forall>e \<in> set (survivors rt sel doc). \<exists>r k. resultOf rt sel e = Inr r \<and> uniqKey r = Inr k)
       \<and> out = map (\<lambda>e. projr (resultOf rt sel e))
                 (dedupBy (\<lambda>e. projr (uniqKey (projr (resultOf rt sel e)))) (survivors rt sel doc))"
proof -
  from assms obtain elems results where
    f: "filterM (keep rt sel) (querySelectorAll (MediaSelectors sel) doc) = Inr elems" and
    m: "mapM (resultOf rt sel) elems = Inr results" and
    u: "uniq uniqKey results [] = Inr out"
    by (auto simp: getMediaItemInfoFromPage_def bind_eq_Inr)
  from filterM_Inr [OF f] have
    k: "\<forall>e \<in> set (querySelectorAll (MediaSelectors sel) doc). \<exists>b. keep rt sel e = Inr b" and
    e: "elems = survivors rt sel doc"
    by (simp_all add: survivors_def)
  from m have r: "map (resultOf rt sel) elems = map Inr results"
    by (simp add: mapM_eq_Inr)
  note results = map_eq_map_Inr(1) [OF r] and ok = map_eq_map_Inr(2) [OF r]
  from uniq_Inr [OF u] have
    ks: "\<forall>x \<in> set results. \<exists>k. uniqKey x = Inr k" and
    out: "out = dedupBy (\<lambda>x. projr (uniqKey x)) results"
    by simp_all
  have "out = map (\<lambda>e. projr (resultOf rt sel e))
      (dedupBy (\<lambda>e. projr (uniqKey (projr (resultOf rt sel e)))) elems)"
    unfolding out results by (rule dedupBy_map)
  moreover have "\<forall>e \<in> set elems. \<exists>r k. resultOf rt sel e = Inr r \<and> uniqKey r = Inr k"
  proof
    fix x assume x: "x \<in> set elems"
    then have "projr (resultOf rt sel x) \<in> set results"
      unfolding results by simp
    with ks obtain k where "uniqKey (projr (resultOf rt sel x)) = Inr k" by blast
    with ok x show "\<exists>r k. resultOf rt sel x = Inr r \<and> uniqKey r = Inr k" by blast
  qed
  ultimately show ?thesis using k e by simp
qed

lemma dedupBy_cong:
  "(\<And>x. x \<in> set xs \<Longrightarrow> f x = g x) \<Longrightarrow> dedupBy f xs = dedupBy g xs"
proof (induction f xs rule: dedupBy.induct)
  case (1 key)
  then show ?case by simp
next
  case (2 key x xs)
  have "filter (\<lambda>y. key y \<noteq> key x) xs = filter (\<lambda>y. g y \<noteq> g x) xs"
    using "2.prems" by (auto intro: filter_cong)
  moreover have "dedupBy key (filter (\<lambda>y. key y \<noteq> key x) xs)
               = dedupBy g (filter (\<lambda>y. key y \<noteq> key x) xs)"
    using "2.prems" by (intro "2.IH") auto
  ultimately show ?case by simp
qed

lemma uniqKey_Inr: "uniqKey r = Inr k \<Longrightarrow> k = dedupKey r"
  by (cases "getProp r ''original''") (auto simp: uniqKey_def dedupKey_def split: if_splits)

lemma map_of_resultObject_section_id:
  "map_of (resultObject title sid mediaType cap startTime endTime thumbTime audioType gid
      sources original) ''section_id'' = Some sid"
  by (simp add: resultObject_def)

lemma resultOf_section_id:
  assumes "resultOf rt sel e = Inr r"
  shows "map_of r ''section_id'' = Some (sectionId e)"
proof (cases "getMediaType sel (fst e)")
  case None
  with assms show ?thesis by (simp add: resultOf_def)
next
  case (Some mediaType)
  with assms show ?thesis
    by (cases mediaType)
       (auto simp: resultOf_def bind_eq_Inr map_of_resultObject_section_id)
qed

lemma parseInt_null: "parseInt None = NaN"
  by (simp add: parseInt_def isWhiteSpace_def isDigit_def)

lemma keep_Inl: "keep rt sel e = Inl err \<Longrightarrow> err = TypeError"
  by (auto simp: keep_def split: if_splits option.splits)

lemma filterM_Inl:
  "x \<in> set xs \<Longrightarrow> f x = Inl err \<Longrightarrow> \<exists>y \<in> set xs. \<exists>err'. f y = Inl err' \<and> filterM f xs = Inl err'"
proof (induction xs)
  case Nil
  then show ?case by simp
next
  case (Cons a xs)
  show ?case
  proof (cases "f a")
    case (Inl e')
    then show ?thesis by auto
  next
    case (Inr b)
    with Cons.prems have "x \<in> set xs" by auto
    from Cons.IH [OF this Cons.prems(2)] obtain y err' where
      "y \<in> set xs" "f y = Inl err'" "filterM f xs = Inl err'" by blast
    with Inr show ?thesis by auto
  qed
qed

lemma resultOf_Video:
  assumes "resultOf rt sel e = Inr r" and "getMediaType sel (fst e) = Some Video"
  shows "\<exists>title dataMw sources.
           resourceTitle rt Video (fst e) = Inr title
           \<and> JSON_parse rt (case getAttribute (fst e) ''data-mw'' of
                              None \<Rightarrow> ''null'' | Some s \<Rightarrow> s) = Inr dataMw
           \<and> mapM sourceEntry (getElementsByTagName ''source'' (fst e)) = Inr sources
           \<and> r = resultObject title (sectionId e) Video (caption rt (fst e))
                   (if truthy dataMw then getMember dataMw ''starttime'' else Undefined)
                   (if truthy dataMw then getMember dataMw ''endtime'' else Undefined)
                   (if truthy dataMw then getMember dataMw ''thumbtime'' else Undefined)
                   Undefined (galleryId e) (Array sources) Undefined"
  using assms by (auto simp: resultOf_def bind_eq_Inr)

lemma uniqKey_no_title:
  "uniqKey (resultObject Undefined sid mediaType cap startTime endTime thumbTime audioType gid
      sources Undefined) = Inl TypeError"
  by (simp add: uniqKey_def getProp_def resultObject_def)

lemma resultOf_unresolved:
  assumes r: "resultOf rt sel e = Inr r"
    and mt: "getMediaType sel (fst e) = Some mediaType"
    and tags: "selector mediaType = Some tags"
    and none: "querySelector tags (fst e) = None"
  shows "uniqKey r = Inl TypeError"
proof -
  from tags none have res: "resourceTitle rt mediaType (fst e) = Inr Undefined"
    by (simp add: resourceTitle_def)
  from tags consider "mediaType = Image" | "mediaType = Video" | "mediaType = Audio"
    by (cases mediaType) simp_all
  then show ?thesis
  proof cases
    case 1
    with r mt res show ?thesis
      by (auto simp: resultOf_def uniqKey_no_title)
  next
    case 2
    with r mt res show ?thesis
      by (auto simp: resultOf_def bind_eq_Inr uniqKey_no_title)
  next
    case 3
    with r mt res show ?thesis
      by (auto simp: resultOf_def uniqKey_no_title)
  qed
qed



lemma getProp_resultObject_times:
  "getProp (resultObject title sid mediaType cap startTime endTime thumbTime audioType gid
      sources original) ''start_time'' = startTime"
  "getProp (resultObject title sid mediaType cap startTime endTime thumbTime audioType gid
      sources original) ''end_time'' = endTime"
  "getProp (resultObject title sid mediaType cap startTime endTime thumbTime audioType gid
      sources original) ''thumb_time'' = thumbTime"
  by (simp_all add: getProp_def resultObject_def)

lemma map_of_Object_assign:
  assumes "distinct (map fst ps)"
  shows "map_of (Object_assign m (Some ps)) k
       = (case map_of ps k of Some v \<Rightarrow> Some v | None \<Rightarrow> map_of m k)"
  using assms
proof (induction ps arbitrary: m)
  case Nil
  then show ?case by (simp add: Object_assign_def)
next
  case (Cons p ps)
  from Cons.prems have d: "distinct (map fst ps)" and n: "map_of ps (fst p) = None"
    by (auto simp: map_of_eq_None_iff)
  have "map_of (Object_assign m (Some (p # ps))) k
      = map_of (Object_assign (AList.update (fst p) (snd p) m) (Some ps)) k"
    by (simp add: Object_assign_def)
  also have "\<dots> = (case map_of ps k of Some v \<Rightarrow> Some v
                    | None \<Rightarrow> map_of (AList.update (fst p) (snd p) m) k)"
    by (rule Cons.IH [OF d])
  also have "\<dots> = (case map_of (p # ps) k of Some v \<Rightarrow> Some v | None \<Rightarrow> map_of m k)"
    using n by (cases p) (auto simp: update_conv' split: option.splits)
  finally show ?case .
qed

lemma combineItem_title: "map_of (combineItem rt api m) ''title'' = None"
  by (simp add: combineItem_def Let_def delete_conv')

lemma combineItem_original:
  "truthy (getProp (combineItem rt api m) ''sources'')
     \<Longrightarrow> map_of (combineItem rt api m) ''original'' = None"
  by (auto simp: combineItem_def Let_def delete_conv' split: if_splits)

lemma combineItem_other:
  assumes "k \<noteq> ''title''"
  shows "map_of (combineItem rt api m) k =
     (if k = ''original'' \<and> truthy (getProp (combineItem rt api m) ''sources'') then None
      else map_of
             (if truthy (getProp m ''title'')
              then Object_assign m (api (propertyKey rt (getProp m ''title''))) else m) k)"
  using assms
  by (auto simp: combineItem_def Let_def delete_conv' getProp_def split: if_splits)

lemma combineItem_idem: "combineItem rt api (combineItem rt api m) = combineItem rt api m"
proof -
  let ?c = "combineItem rt api m"
  have t: "''title'' \<notin> fst ` set ?c"
    using combineItem_title [of rt api m] by (simp add: map_of_eq_None_iff)
  then have "\<not> truthy (getProp ?c ''title'')"
    using combineItem_title [of rt api m] by (simp add: getProp_def)
  moreover have "AList.delete ''original'' ?c = ?c" if "truthy (getProp ?c ''sources'')"
    using combineItem_original [OF that] by (simp add: map_of_eq_None_iff)
  ultimately show ?thesis
    using t by (simp add: combineItem_def [of rt api ?c] Let_def)
qed

lemma combineResponses_spec:
  "combineResponses rt api h as = (h', rs) \<Longrightarrow>
     rs = as \<and> (\<forall>a. h' a = (if a \<in> set as then combineItem rt api (h a) else h a))"
proof (induction as arbitrary: h h' rs)
  case Nil
  then show ?case by simp
next
  case (Cons b as)
  from Cons.prems obtain rs' where
    rec: "combineResponses rt api (h(b := combineItem rt api (h b))) as = (h', rs')"
    and rs: "rs = b # rs'"
    by (auto split: prod.splits)
  from Cons.IH [OF rec] rs show ?case
    by (auto simp: combineItem_idem)
qed


lemma survivors_filter:
  "survivors rt sel doc =
     filter (\<lambda>e. MediaSelectors sel e \<and> keep rt sel e = Inr True) (located [] doc)"
  by (simp add: survivors_def querySelectorAll_def)

lemma sourcePosition_survivor:
  assumes ok: "\<forall>e \<in> set (survivors rt sel doc). \<exists>r k. resultOf rt sel e = Inr r \<and> uniqKey r = Inr k"
    and a: "a \<in> set (survivors rt sel doc)"
  shows "sourcePosition rt sel doc (projr (resultOf rt sel a)) =
     length (takeWhile
       (\<lambda>e. \<not> ((MediaSelectors sel e \<and> keep rt sel e = Inr True)
                 \<and> projr (uniqKey (projr (resultOf rt sel e)))
                   = projr (uniqKey (projr (resultOf rt sel a)))))
       (located [] doc))"
proof -
  from ok a obtain ra ka where ra: "resultOf rt sel a = Inr ra" and ka: "uniqKey ra = Inr ka"
    by blast
  have "takeWhile
       (\<lambda>e. \<not> (MediaSelectors sel e \<and> keep rt sel e = Inr True
                 \<and> bind (resultOf rt sel e) uniqKey = uniqKey ra))
       (located [] doc)
     = takeWhile
       (\<lambda>e. \<not> ((MediaSelectors sel e \<and> keep rt sel e = Inr True)
                 \<and> projr (uniqKey (projr (resultOf rt sel e))) = ka))
       (located [] doc)"
  proof (rule takeWhile_cong [OF refl])
    fix e assume "e \<in> set (located [] doc)"
    show "(\<not> (MediaSelectors sel e \<and> keep rt sel e = Inr True
                 \<and> bind (resultOf rt sel e) uniqKey = uniqKey ra))
        = (\<not> ((MediaSelectors sel e \<and> keep rt sel e = Inr True)
                 \<and> projr (uniqKey (projr (resultOf rt sel e))) = ka))"
    proof (cases "MediaSelectors sel e \<and> keep rt sel e = Inr True")
      case False
      then show ?thesis by blast
    next
      case True
      with \<open>e \<in> set (located [] doc)\<close> have "e \<in> set (survivors rt sel doc)"
        by (simp add: survivors_filter)
      with ok obtain r k where "resultOf rt sel e = Inr r" "uniqKey r = Inr k" by blast
      with True ka show ?thesis by simp
    qed
  qed
  with ra ka show ?thesis by (simp add: sourcePosition_def)
qed

lemma exampleDoc_result:
  "getMediaItemInfoFromPage exampleRuntime exampleSelectors exampleDoc
     = Inr [exampleFoo, exampleBar, exampleMath]"
  by code_simp

lemma exampleDoc_records:
  "map (resultOf exampleRuntime exampleSelectors) (survivors exampleRuntime exampleSelectors exampleDoc)
     = map Inr [exampleFoo, exampleBar, exampleFooAgain, exampleMath]"
  by code_simp




section \<open>Classification\<close>

text \<open>
  Claim C7. Classification follows the priority rules: a \<^verbatim>\<open>typeof\<close> whose first eight
  characters are \<^verbatim>\<open>mw:Image\<close>, \<^verbatim>\<open>mw:Video\<close> or \<^verbatim>\<open>mw:Audio\<close> gives Image, Video or
  Audio; any other \<^verbatim>\<open>typeof\<close> that is not empty gives Unknown; without \<^verbatim>\<open>typeof\<close>
  (or with an empty one) \<^verbatim>\<open>rel="mw:MediaLink"\<close> gives Pronunciation, then the test
  \<open>isMathoidImage\<close> (the class attribute contains the Mathoid class name) gives
  MathImage; an element matching none of these is not classified.
\<close>

theorem getMediaType_priority:
  "(getAttribute elem ''typeof'' = Some t \<and> take 8 t = ''mw:Image''
      \<longrightarrow> getMediaType sel elem = Some Image)
   \<and> (getAttribute elem ''typeof'' = Some t \<and> take 8 t = ''mw:Video''
      \<longrightarrow> getMediaType sel elem = Some Video)
   \<and> (getAttribute elem ''typeof'' = Some t \<and> take 8 t = ''mw:Audio''
      \<longrightarrow> getMediaType sel elem = Some Audio)
   \<and> (getAttribute elem ''typeof'' = Some t \<and> t \<noteq> []
        \<and> take 8 t \<notin> {''mw:Image'', ''mw:Video'', ''mw:Audio''}
      \<longrightarrow> getMediaType sel elem = Some Unknown)
   \<and> (getAttribute elem ''typeof'' \<in> {None, Some []}
        \<and> getAttribute elem ''rel'' = Some ''mw:MediaLink''
      \<longrightarrow> getMediaType sel elem = Some Pronunciation)
   \<and> (getAttribute elem ''typeof'' \<in> {None, Some []}
        \<and> getAttribute elem ''rel'' \<noteq> Some ''mw:MediaLink''
        \<and> isMathoidImage sel elem
      \<longrightarrow> getMediaType sel elem = Some MathImage)
   \<and> (getAttribute elem ''typeof'' \<in> {None, Some []}
        \<and> getAttribute elem ''rel'' \<noteq> Some ''mw:MediaLink''
        \<and> \<not> isMathoidImage sel elem
      \<longrightarrow> getMediaType sel elem = None)"
  by (cases t) (auto simp: getMediaType_def Let_def)

text \<open>One element for each of the seven cases.\<close>

theorem getMediaType_priority_witness:
  "getMediaType exampleSelectors (Element ''figure'' [(''typeof'', ''mw:Image/Thumb'')] []) = Some Image
   \<and> getMediaType exampleSelectors (Element ''figure'' [(''typeof'', ''mw:Video/Thumb'')] []) = Some Video
   \<and> getMediaType exampleSelectors (Element ''figure'' [(''typeof'', ''mw:Audio'')] []) = Some Audio
   \<and> getMediaType exampleSelectors (Element ''span'' [(''typeof'', ''mw:Transclusion'')] []) = Some Unknown
   \<and> getMediaType exampleSelectors (Element ''a'' [(''rel'', ''mw:MediaLink'')] []) = Some Pronunciation
   \<and> getMediaType exampleSelectors
        (Element ''img'' [(''class'', ''mwe-math-fallback-image-inline'')] []) = Some MathImage
   \<and> getMediaType exampleSelectors (Element ''img'' [(''class'', ''thumbimage'')] []) = None"
proof -
  have math: "isMathoidImage exampleSelectors
      (Element ''img'' [(''class'', ''mwe-math-fallback-image-inline'')] [])"
    by (simp add: isMathoidImage_def className_def exampleSelectors_def)
  have nomath: "\<not> isMathoidImage exampleSelectors (Element ''img'' [(''class'', ''thumbimage'')] [])"
    by (simp add: isMathoidImage_def className_def exampleSelectors_def)
  show ?thesis
    using getMediaType_priority [of "Element ''figure'' [(''typeof'', ''mw:Image/Thumb'')] []"
            "''mw:Image/Thumb''" exampleSelectors]
          getMediaType_priority [of "Element ''figure'' [(''typeof'', ''mw:Video/Thumb'')] []"
            "''mw:Video/Thumb''" exampleSelectors]
          getMediaType_priority [of "Element ''figure'' [(''typeof'', ''mw:Audio'')] []"
            "''mw:Audio''" exampleSelectors]
          getMediaType_priority [of "Element ''span'' [(''typeof'', ''mw:Transclusion'')] []"
            "''mw:Transclusion''" exampleSelectors]
          getMediaType_priority [of "Element ''a'' [(''rel'', ''mw:MediaLink'')] []" "[]" exampleSelectors]
          getMediaType_priority [of "Element ''img'' [(''class'', ''mwe-math-fallback-image-inline'')] []"
            "[]" exampleSelectors]
          getMediaType_priority [of "Element ''img'' [(''class'', ''thumbimage'')] []" "[]" exampleSelectors]
          math nomath
    by simp
qed

section \<open>Order and deduplication\<close>

text \<open>
  Claim C4. When \<open>getMediaItemInfoFromPage\<close> returns a list, the list is ordered by the
  position, in document order, of each record's first matching and surviving element:
  the positions \<open>sourcePosition\<close> of the records increase strictly along the list, and
  at the position of a record stands a surviving element of which it is the record.
\<close>

theorem output_in_document_order:
  assumes "getMediaItemInfoFromPage rt sel doc = Inr out"
  shows "sorted_wrt (\<lambda>r r'. sourcePosition rt sel doc r < sourcePosition rt sel doc r') out
       \<and> (\<forall>r \<in> set out.
             sourcePosition rt sel doc r < length (located [] doc)
             \<and> located [] doc ! sourcePosition rt sel doc r \<in> set (survivors rt sel doc)
             \<and> resultOf rt sel (located [] doc ! sourcePosition rt sel doc r) = Inr r)"
proof -
  let ?D = "located [] doc"
  let ?P = "\<lambda>e. MediaSelectors sel e \<and> keep rt sel e = Inr True"
  let ?rec = "\<lambda>e. projr (resultOf rt sel e)"
  let ?key = "\<lambda>e. projr (uniqKey (?rec e))"
  let ?F = "dedupBy ?key (filter ?P ?D)"
  let ?pos = "\<lambda>a. length (takeWhile (\<lambda>e. \<not> (?P e \<and> ?key e = ?key a)) ?D)"
  from getMediaItemInfoFromPage_Inr [OF assms] have
    ok: "\<forall>e \<in> set (survivors rt sel doc). \<exists>r k. resultOf rt sel e = Inr r \<and> uniqKey r = Inr k"
    and out: "out = map ?rec ?F"
    by (simp_all add: survivors_filter)
  have F: "a \<in> set (survivors rt sel doc)" if "a \<in> set ?F" for a
    using that set_dedupBy_subset [of ?key "filter ?P ?D"] by (auto simp: survivors_filter)
  have pos: "sourcePosition rt sel doc (?rec a) = ?pos a" if "a \<in> set ?F" for a
    by (rule sourcePosition_survivor [OF ok F [OF that]])
  have "sorted_wrt (\<lambda>a b. ?pos a < ?pos b) ?F"
    by (rule sorted_first_positions)
  then have "sorted_wrt (\<lambda>a b. sourcePosition rt sel doc (?rec a)
                              < sourcePosition rt sel doc (?rec b)) ?F"
    by (rule sorted_wrt_mono_rel [rotated]) (simp only: pos)
  then have sorted: "sorted_wrt
      (\<lambda>r r'. sourcePosition rt sel doc r < sourcePosition rt sel doc r') out"
    unfolding out sorted_wrt_map .
  have first: "sourcePosition rt sel doc r < length ?D
             \<and> ?D ! sourcePosition rt sel doc r \<in> set (survivors rt sel doc)
             \<and> resultOf rt sel (?D ! sourcePosition rt sel doc r) = Inr r"
    if "r \<in> set out" for r
  proof -
    from that out obtain a where a: "a \<in> set ?F" and r: "r = ?rec a" by auto
    from find_dedupBy [OF a] have "find (\<lambda>x. ?P x \<and> ?key x = ?key a) ?D = Some a"
      by (simp add: find_filter)
    from find_takeWhile [OF this] have "?pos a < length ?D" "?D ! ?pos a = a"
      by simp_all
    moreover from ok F [OF a] have "resultOf rt sel a = Inr (?rec a)" by auto
    ultimately show ?thesis using r pos [OF a] F [OF a] by simp
  qed
  from sorted first show ?thesis by blast
qed

text \<open>
  On the example page the records of the first image, the second image and the formula
  come out, from positions 2, 6 and 12 of the thirteen elements.
\<close>

theorem output_in_document_order_witness:
  "getMediaItemInfoFromPage exampleRuntime exampleSelectors exampleDoc
     = Inr [exampleFoo, exampleBar, exampleMath]
   \<and> sourcePosition exampleRuntime exampleSelectors exampleDoc exampleFoo = 2
   \<and> sourcePosition exampleRuntime exampleSelectors exampleDoc exampleBar = 6
   \<and> sourcePosition exampleRuntime exampleSelectors exampleDoc exampleMath = 12
   \<and> sorted_wrt (\<lambda>r r'. sourcePosition exampleRuntime exampleSelectors exampleDoc r
                        < sourcePosition exampleRuntime exampleSelectors exampleDoc r')
        [exampleFoo, exampleBar, exampleMath]"
proof -
  have run: "getMediaItemInfoFromPage exampleRuntime exampleSelectors exampleDoc
     = Inr [exampleFoo, exampleBar, exampleMath]"
    by code_simp
  have "sourcePosition exampleRuntime exampleSelectors exampleDoc exampleFoo = 2"
       "sourcePosition exampleRuntime exampleSelectors exampleDoc exampleBar = 6"
       "sourcePosition exampleRuntime exampleSelectors exampleDoc exampleMath = 12"
    by code_simp+
  with run output_in_document_order [OF run] show ?thesis by blast
qed

text \<open>
  Claim C5. When \<open>getMediaItemInfoFromPage\<close> returns a list, the records of the
  surviving elements are deduplicated by the key \<open>dedupKey\<close> (the title when the record
  has one, else the source of \<^verbatim>\<open>original\<close>), which the code computes for each of them
  without raising: every key of a surviving element has exactly one record in the
  output, and that record is the first one with the key, as it was extracted; the later
  ones are dropped and nothing of them is merged into it.
\<close>

theorem deduplication_first_wins:
  assumes "getMediaItemInfoFromPage rt sel doc = Inr out"
  shows "\<exists>recs. map (resultOf rt sel) (survivors rt sel doc) = map Inr recs
           \<and> (\<forall>r \<in> set recs. uniqKey r = Inr (dedupKey r))
           \<and> out = dedupBy dedupKey recs
           \<and> distinct (map dedupKey out)
           \<and> dedupKey ` set out = dedupKey ` set recs
           \<and> (\<forall>r \<in> set out. find (\<lambda>x. dedupKey x = dedupKey r) recs = Some r)"
proof -
  let ?S = "survivors rt sel doc"
  let ?rec = "\<lambda>e. projr (resultOf rt sel e)"
  let ?recs = "map ?rec ?S"
  from getMediaItemInfoFromPage_Inr [OF assms] have
    ok: "\<forall>e \<in> set ?S. \<exists>r k. resultOf rt sel e = Inr r \<and> uniqKey r = Inr k"
    and out: "out = map ?rec (dedupBy (\<lambda>e. projr (uniqKey (?rec e))) ?S)"
    by simp_all
  have recs: "map (resultOf rt sel) ?S = map Inr ?recs"
    using ok by auto
  have key: "uniqKey r = Inr (dedupKey r)" if "r \<in> set ?recs" for r
  proof -
    from that ok obtain k where "uniqKey r = Inr k" by auto
    with uniqKey_Inr [OF this] show ?thesis by simp
  qed
  have "out = dedupBy (\<lambda>r. projr (uniqKey r)) ?recs"
    unfolding out by (rule dedupBy_map [symmetric])
  also have "\<dots> = dedupBy dedupKey ?recs"
    by (rule dedupBy_cong) (simp add: key)
  finally have dedup: "out = dedupBy dedupKey ?recs" .
  have "distinct (map dedupKey out)"
    unfolding dedup by (rule distinct_dedupBy)
  moreover have "dedupKey ` set out = dedupKey ` set ?recs"
    unfolding dedup by (rule keys_dedupBy)
  moreover have "\<forall>r \<in> set out. find (\<lambda>x. dedupKey x = dedupKey r) ?recs = Some r"
    unfolding dedup by (blast intro: find_dedupBy)
  ultimately show ?thesis using recs key dedup by blast
qed

text \<open>
  On the example page the fourth figure shows the file of the first: its record has no
  caption, and the record kept for \<^verbatim>\<open>File:Foo.jpg\<close> is the first one, with its caption.
\<close>

theorem deduplication_first_wins_witness:
  "getMediaItemInfoFromPage exampleRuntime exampleSelectors exampleDoc
     = Inr [exampleFoo, exampleBar, exampleMath]
   \<and> map (resultOf exampleRuntime exampleSelectors)
        (survivors exampleRuntime exampleSelectors exampleDoc)
     = map Inr [exampleFoo, exampleBar, exampleFooAgain, exampleMath]
   \<and> map dedupKey [exampleFoo, exampleBar, exampleFooAgain, exampleMath]
     = [String ''File:Foo.jpg'', String ''File:Bar.jpg'', String ''File:Foo.jpg'',
        String ''/math/render/svg/1'']
   \<and> [exampleFoo, exampleBar, exampleMath]
     = dedupBy dedupKey [exampleFoo, exampleBar, exampleFooAgain, exampleMath]
   \<and> distinct (map dedupKey [exampleFoo, exampleBar, exampleMath])
   \<and> find (\<lambda>x. dedupKey x = dedupKey exampleFoo)
        [exampleFoo, exampleBar, exampleFooAgain, exampleMath] = Some exampleFoo"
proof -
  from deduplication_first_wins [OF exampleDoc_result] obtain recs where
    recs: "map (resultOf exampleRuntime exampleSelectors)
             (survivors exampleRuntime exampleSelectors exampleDoc) = map Inr recs"
    and rest: "[exampleFoo, exampleBar, exampleMath] = dedupBy dedupKey recs"
      "distinct (map dedupKey [exampleFoo, exampleBar, exampleMath])"
      "\<forall>r \<in> set [exampleFoo, exampleBar, exampleMath].
         find (\<lambda>x. dedupKey x = dedupKey r) recs = Some r"
    by blast
  from recs exampleDoc_records
  have "map Inr recs = (map Inr [exampleFoo, exampleBar, exampleFooAgain, exampleMath]
          :: (error + obj) list)"
    by (simp only:)
  then have "recs = [exampleFoo, exampleBar, exampleFooAgain, exampleMath]"
    by (rule map_injective) simp
  note recs' = this
  have keys: "map dedupKey [exampleFoo, exampleBar, exampleFooAgain, exampleMath]
     = [String ''File:Foo.jpg'', String ''File:Bar.jpg'', String ''File:Foo.jpg'',
        String ''/math/render/svg/1'']"
    by code_simp
  have "exampleFoo \<in> set [exampleFoo, exampleBar, exampleMath]"
    by (simp only: list.set insertI1)
  with rest(3) have first: "find (\<lambda>x. dedupKey x = dedupKey exampleFoo) recs = Some exampleFoo"
    by (rule bspec)
  show ?thesis
    using exampleDoc_result exampleDoc_records keys rest(1,2) first
    unfolding recs' by (intro conjI)
qed

section \<open>The section id\<close>

text \<open>
  Claim C10. In the record of an element that has an enclosing \<^verbatim>\<open>section\<close> (found by
  \<^verbatim>\<open>closest\<close>) whose \<^verbatim>\<open>data-mw-section-id\<close> is missing or does not parse as an integer,
  the property \<^verbatim>\<open>section_id\<close> is there with the value \<open>NaN\<close>; it is \<^verbatim>\<open>undefined\<close> (and
  so left out of the JSON) exactly when the element has no enclosing section.
\<close>

theorem section_id_NaN:
  assumes "resultOf rt sel e = Inr r"
  shows "(\<forall>s. closest (\<lambda>a. hasTag [''section''] (fst a)) (fst e) (snd e) = Some s
            \<and> (getAttribute (fst s) ''data-mw-section-id'' = None
                \<or> parseInt (getAttribute (fst s) ''data-mw-section-id'') = NaN)
          \<longrightarrow> map_of r ''section_id'' = Some (Number NaN))
       \<and> (map_of r ''section_id'' = Some Undefined
            \<longleftrightarrow> closest (\<lambda>a. hasTag [''section''] (fst a)) (fst e) (snd e) = None)"
  using resultOf_section_id [OF assms] parseInt_null
  by (auto simp: sectionId_def split: option.splits)

text \<open>
  On the example page the first figure lies in a section without id and the second in
  a section whose id is a word: both get \<open>NaN\<close>. The third lies in no section and gets
  \<^verbatim>\<open>undefined\<close>.
\<close>

theorem section_id_NaN_witness:
  "closest (\<lambda>a. hasTag [''section''] (fst a))
     (fst (located [] exampleSections ! 2)) (snd (located [] exampleSections ! 2))
     = Some (located [] exampleSections ! 1)
   \<and> getAttribute (fst (located [] exampleSections ! 1)) ''data-mw-section-id'' = None
   \<and> map_of (projr (resultOf exampleRuntime exampleSelectors (located [] exampleSections ! 2)))
        ''section_id'' = Some (Number NaN)
   \<and> closest (\<lambda>a. hasTag [''section''] (fst a))
     (fst (located [] exampleSections ! 5)) (snd (located [] exampleSections ! 5))
     = Some (located [] exampleSections ! 4)
   \<and> getAttribute (fst (located [] exampleSections ! 4)) ''data-mw-section-id'' = Some ''intro''
   \<and> parseInt (Some ''intro'') = NaN
   \<and> map_of (projr (resultOf exampleRuntime exampleSelectors (located [] exampleSections ! 5)))
        ''section_id'' = Some (Number NaN)
   \<and> closest (\<lambda>a. hasTag [''section''] (fst a))
        (fst (located [] exampleSections ! 7)) (snd (located [] exampleSections ! 7)) = None
   \<and> map_of (projr (resultOf exampleRuntime exampleSelectors (located [] exampleSections ! 7)))
        ''section_id'' = Some Undefined"
proof -
  have r: "resultOf exampleRuntime exampleSelectors (located [] exampleSections ! 2)
      = Inr (projr (resultOf exampleRuntime exampleSelectors (located [] exampleSections ! 2)))"
    "resultOf exampleRuntime exampleSelectors (located [] exampleSections ! 5)
      = Inr (projr (resultOf exampleRuntime exampleSelectors (located [] exampleSections ! 5)))"
    "resultOf exampleRuntime exampleSelectors (located [] exampleSections ! 7)
      = Inr (projr (resultOf exampleRuntime exampleSelectors (located [] exampleSections ! 7)))"
    by code_simp+
  have c: "closest (\<lambda>a. hasTag [''section''] (fst a))
     (fst (located [] exampleSections ! 2)) (snd (located [] exampleSections ! 2))
     = Some (located [] exampleSections ! 1)"
    "closest (\<lambda>a. hasTag [''section''] (fst a))
     (fst (located [] exampleSections ! 5)) (snd (located [] exampleSections ! 5))
     = Some (located [] exampleSections ! 4)"
    "closest (\<lambda>a. hasTag [''section''] (fst a))
        (fst (located [] exampleSections ! 7)) (snd (located [] exampleSections ! 7)) = None"
    by code_simp+
  have a: "getAttribute (fst (located [] exampleSections ! 1)) ''data-mw-section-id'' = None"
    "getAttribute (fst (located [] exampleSections ! 4)) ''data-mw-section-id'' = Some ''intro''"
    "parseInt (Some ''intro'') = NaN"
    by code_simp+
  from section_id_NaN [OF r(1)] c(1) a(1)
  have 1: "map_of (projr (resultOf exampleRuntime exampleSelectors (located [] exampleSections ! 2)))
        ''section_id'' = Some (Number NaN)"
    by blast
  from section_id_NaN [OF r(2)] c(2) a(2,3)
  have 2: "map_of (projr (resultOf exampleRuntime exampleSelectors (located [] exampleSections ! 5)))
        ''section_id'' = Some (Number NaN)"
    by auto
  from section_id_NaN [OF r(3)] c(3)
  have 3: "map_of (projr (resultOf exampleRuntime exampleSelectors (located [] exampleSections ! 7)))
        ''section_id'' = Some Undefined"
    by blast
  from 1 2 3 c a show ?thesis by blast
qed

section \<open>The size filter\<close>




section \<open>Elements whose resource does not resolve\<close>

text \<open>
  Claim C3, as the code has it. A candidate whose media type has a resource selector
  and whose resource element does not resolve is not excluded for that reason. Unless
  the blacklist removes it (which it can for a Video or Audio candidate that is not a
  Mathoid image), \<open>getMediaItemInfoFromPage\<close> raises for the whole document: the record
  of the element has neither title nor \<^verbatim>\<open>original\<close>, so deduplication raises at the
  latest. For an Image candidate that is not a Mathoid image the size filter raises a
  TypeError, since it reads the width of a resource that is not there.
\<close>

theorem unresolved_resource_raises:
  assumes cand: "e \<in> set (querySelectorAll (MediaSelectors sel) doc)"
    and mt: "getMediaType sel (fst e) = Some mediaType"
    and tags: "selector mediaType = Some tags"
    and none: "querySelector tags (fst e) = None"
  shows "(mediaType = Image \<or> isMathoidImage sel (fst e) \<or> \<not> isDisallowed sel e
            \<longrightarrow> (\<exists>err. getMediaItemInfoFromPage rt sel doc = Inl err))
       \<and> (mediaType = Image \<and> \<not> isMathoidImage sel (fst e)
            \<longrightarrow> getMediaItemInfoFromPage rt sel doc = Inl TypeError)"
proof (intro conjI impI)
  assume kept: "mediaType = Image \<or> isMathoidImage sel (fst e) \<or> \<not> isDisallowed sel e"
  show "\<exists>err. getMediaItemInfoFromPage rt sel doc = Inl err"
  proof (cases "getMediaItemInfoFromPage rt sel doc")
    case (Inl err)
    then show ?thesis by blast
  next
    case (Inr out)
    from getMediaItemInfoFromPage_Inr [OF Inr] have
      k: "\<forall>e \<in> set (querySelectorAll (MediaSelectors sel) doc). \<exists>b. keep rt sel e = Inr b" and
      ok: "\<forall>e \<in> set (survivors rt sel doc). \<exists>r k. resultOf rt sel e = Inr r \<and> uniqKey r = Inr k"
      by simp_all
    from k cand obtain b where b: "keep rt sel e = Inr b" by blast
    with kept mt tags none have "keep rt sel e = Inr True"
      by (auto simp: keep_def resourceOf_def split: if_splits)
    with cand have "e \<in> set (survivors rt sel doc)"
      by (simp add: survivors_def)
    with ok obtain r k where "resultOf rt sel e = Inr r" "uniqKey r = Inr k" by blast
    with resultOf_unresolved [OF _ mt tags none] show ?thesis by simp
  qed
next
  assume "mediaType = Image \<and> \<not> isMathoidImage sel (fst e)"
  with mt tags none have "keep rt sel e = Inl TypeError"
    by (simp add: keep_def resourceOf_def)
  from filterM_Inl [where f = "keep rt sel", OF cand this] obtain y err' where
    "keep rt sel y = Inl err'"
    "filterM (keep rt sel) (querySelectorAll (MediaSelectors sel) doc) = Inl err'"
    by blast
  with keep_Inl [of rt sel y err'] show "getMediaItemInfoFromPage rt sel doc = Inl TypeError"
    by (simp add: getMediaItemInfoFromPage_def)
qed

text \<open>
  The claim as stated fails on a page whose second figure has \<^verbatim>\<open>typeof="mw:Image"\<close> and
  no \<^verbatim>\<open>img\<close>: the figure is a candidate classified as Image, and the extraction raises.
\<close>

theorem unresolved_resource_counterexample:
  "located [] exampleNoImg ! 3 \<in> set (querySelectorAll (MediaSelectors exampleSelectors) exampleNoImg)
   \<and> getMediaType exampleSelectors (fst (located [] exampleNoImg ! 3)) = Some Image
   \<and> querySelector [''img''] (fst (located [] exampleNoImg ! 3)) = None
   \<and> getMediaItemInfoFromPage exampleRuntime exampleSelectors exampleNoImg = Inl TypeError"
  by code_simp

text \<open>The same for a video without its \<^verbatim>\<open>video\<close> element, and for the image.\<close>

theorem unresolved_resource_raises_witness:
  "isl (getMediaItemInfoFromPage exampleRuntime exampleSelectors exampleNoVideo)
   \<and> getMediaItemInfoFromPage exampleRuntime exampleSelectors exampleNoImg = Inl TypeError"
proof -
  have v: "located [] exampleNoVideo ! 3
        \<in> set (querySelectorAll (MediaSelectors exampleSelectors) exampleNoVideo)"
      "getMediaType exampleSelectors (fst (located [] exampleNoVideo ! 3)) = Some Video"
      "selector Video = Some [''video'']"
      "querySelector [''video''] (fst (located [] exampleNoVideo ! 3)) = None"
      "\<not> isDisallowed exampleSelectors (located [] exampleNoVideo ! 3)"
    by code_simp+
  have i: "located [] exampleNoImg ! 3
        \<in> set (querySelectorAll (MediaSelectors exampleSelectors) exampleNoImg)"
      "getMediaType exampleSelectors (fst (located [] exampleNoImg ! 3)) = Some Image"
      "selector Image = Some [''img'']"
      "querySelector [''img''] (fst (located [] exampleNoImg ! 3)) = None"
      "\<not> isMathoidImage exampleSelectors (fst (located [] exampleNoImg ! 3))"
    by code_simp+
  from unresolved_resource_raises [OF v(1-4), of exampleRuntime] v(5)
  have "isl (getMediaItemInfoFromPage exampleRuntime exampleSelectors exampleNoVideo)"
    by auto
  moreover from unresolved_resource_raises [OF i(1-4), of exampleRuntime] i(5)
  have "getMediaItemInfoFromPage exampleRuntime exampleSelectors exampleNoImg = Inl TypeError"
    by blast
  ultimately show ?thesis by blast
qed

section \<open>Videos\<close>

text \<open>
  Claim C1, as the code has it. If a Video element that the filter keeps carries a
  \<^verbatim>\<open>data-mw\<close> that \<^verbatim>\<open>JSON.parse\<close> rejects, \<open>getMediaItemInfoFromPage\<close> raises: the whole
  extraction aborts and no list is returned. The time fields of a Video record are
  left unset when the attribute is absent, for then \<^verbatim>\<open>JSON.parse(null)\<close> is \<^verbatim>\<open>null\<close>.
\<close>

theorem malformed_data_mw_aborts:
  assumes cand: "e \<in> set (querySelectorAll (MediaSelectors sel) doc)"
    and mt: "getMediaType sel (fst e) = Some Video"
  shows "(\<forall>s err. (isMathoidImage sel (fst e) \<or> \<not> isDisallowed sel e)
              \<and> getAttribute (fst e) ''data-mw'' = Some s \<and> JSON_parse rt s = Inl err
            \<longrightarrow> (\<exists>err'. getMediaItemInfoFromPage rt sel doc = Inl err'))
       \<and> (\<forall>r. resultOf rt sel e = Inr r \<and> getAttribute (fst e) ''data-mw'' = None
              \<and> JSON_parse rt ''null'' = Inr Null
            \<longrightarrow> getProp r ''start_time'' = Undefined \<and> getProp r ''end_time'' = Undefined
                \<and> getProp r ''thumb_time'' = Undefined)"
proof (intro conjI allI impI)
  fix s err
  assume h: "(isMathoidImage sel (fst e) \<or> \<not> isDisallowed sel e)
      \<and> getAttribute (fst e) ''data-mw'' = Some s \<and> JSON_parse rt s = Inl err"
  show "\<exists>err'. getMediaItemInfoFromPage rt sel doc = Inl err'"
  proof (cases "getMediaItemInfoFromPage rt sel doc")
    case (Inl err')
    then show ?thesis by blast
  next
    case (Inr out)
    from getMediaItemInfoFromPage_Inr [OF Inr] have
      ok: "\<forall>e \<in> set (survivors rt sel doc). \<exists>r k. resultOf rt sel e = Inr r \<and> uniqKey r = Inr k"
      by simp
    from h mt have "keep rt sel e = Inr True"
      by (auto simp: keep_def)
    with cand have "e \<in> set (survivors rt sel doc)"
      by (simp add: survivors_def)
    with ok obtain r where "resultOf rt sel e = Inr r" by blast
    from resultOf_Video [OF this mt] h show ?thesis by auto
  qed
next
  fix r
  assume h: "resultOf rt sel e = Inr r \<and> getAttribute (fst e) ''data-mw'' = None
      \<and> JSON_parse rt ''null'' = Inr Null"
  then have r: "resultOf rt sel e = Inr r" by simp
  from resultOf_Video [OF r mt] h
  show "getProp r ''start_time'' = Undefined" "getProp r ''end_time'' = Undefined"
    "getProp r ''thumb_time'' = Undefined"
    by (auto simp: getProp_resultObject_times)
qed

text \<open>
  The claim as stated fails on a page with a sound figure and a video whose \<^verbatim>\<open>data-mw\<close>
  is a lone brace: the SyntaxError of \<^verbatim>\<open>JSON.parse\<close> is the result for the whole page.
\<close>

theorem malformed_data_mw_counterexample:
  "located [] exampleBadJson ! 3
     \<in> set (querySelectorAll (MediaSelectors exampleSelectors) exampleBadJson)
   \<and> getMediaType exampleSelectors (fst (located [] exampleBadJson ! 3)) = Some Video
   \<and> getAttribute (fst (located [] exampleBadJson ! 3)) ''data-mw'' = Some ''{''
   \<and> JSON_parse exampleRuntime ''{'' = Inl SyntaxError
   \<and> getMediaItemInfoFromPage exampleRuntime exampleSelectors exampleBadJson = Inl SyntaxError"
  by code_simp

text \<open>The same page, and a video without \<^verbatim>\<open>data-mw\<close>, whose time fields are unset.\<close>

theorem malformed_data_mw_aborts_witness:
  "isl (getMediaItemInfoFromPage exampleRuntime exampleSelectors exampleBadJson)
   \<and> getAttribute (fst (located [] exampleVideo ! 1)) ''data-mw'' = None
   \<and> getProp (projr (resultOf exampleRuntime exampleSelectors (located [] exampleVideo ! 1)))
        ''start_time'' = Undefined
   \<and> getProp (projr (resultOf exampleRuntime exampleSelectors (located [] exampleVideo ! 1)))
        ''end_time'' = Undefined
   \<and> getProp (projr (resultOf exampleRuntime exampleSelectors (located [] exampleVideo ! 1)))
        ''thumb_time'' = Undefined"
proof -
  have b: "located [] exampleBadJson ! 3
        \<in> set (querySelectorAll (MediaSelectors exampleSelectors) exampleBadJson)"
      "getMediaType exampleSelectors (fst (located [] exampleBadJson ! 3)) = Some Video"
      "\<not> isDisallowed exampleSelectors (located [] exampleBadJson ! 3)"
      "getAttribute (fst (located [] exampleBadJson ! 3)) ''data-mw'' = Some ''{''"
      "JSON_parse exampleRuntime ''{'' = Inl SyntaxError"
    by code_simp+
  have v: "located [] exampleVideo ! 1
        \<in> set (querySelectorAll (MediaSelectors exampleSelectors) exampleVideo)"
      "getMediaType exampleSelectors (fst (located [] exampleVideo ! 1)) = Some Video"
      "resultOf exampleRuntime exampleSelectors (located [] exampleVideo ! 1)
        = Inr (projr (resultOf exampleRuntime exampleSelectors (located [] exampleVideo ! 1)))"
      "getAttribute (fst (located [] exampleVideo ! 1)) ''data-mw'' = None"
      "JSON_parse exampleRuntime ''null'' = Inr Null"
    by code_simp+
  from malformed_data_mw_aborts [OF b(1,2), of exampleRuntime] b(3-5)
  have "isl (getMediaItemInfoFromPage exampleRuntime exampleSelectors exampleBadJson)"
    by (metis sum.disc(1))
  moreover from malformed_data_mw_aborts [OF v(1,2), of exampleRuntime] v(3-5)
  have "getProp (projr (resultOf exampleRuntime exampleSelectors (located [] exampleVideo ! 1)))
        ''start_time'' = Undefined
   \<and> getProp (projr (resultOf exampleRuntime exampleSelectors (located [] exampleVideo ! 1)))
        ''end_time'' = Undefined
   \<and> getProp (projr (resultOf exampleRuntime exampleSelectors (located [] exampleVideo ! 1)))
        ''thumb_time'' = Undefined"
    by blast
  ultimately show ?thesis using v(4) by blast
qed




section \<open>Merge\<close>

text \<open>
  Claim C6. For every metadata map and record list, every record that
  \<open>combineResponses\<close> returns has no \<^verbatim>\<open>title\<close>; a record that carries \<^verbatim>\<open>sources\<close> (the
  code's test: its value is truthy, as the array of a video is) has no \<^verbatim>\<open>original\<close>; a
  record whose title has an entry in the map has that entry's fields, and keeps its
  own fields under the names the entry does not have; a record without a title, or
  whose title has no entry, keeps its own fields and gets no other. The function has no
  way to fail. (\<open>h a\<close> is the record before the call, \<open>h' a\<close> after it; an entry, being
  an object, has no property name twice.)
\<close>

theorem combineResponses_fields:
  assumes "combineResponses rt api h as = (h', rs)" and "a \<in> set rs"
  shows "map_of (h' a) ''title'' = None
       \<and> (truthy (getProp (h' a) ''sources'') \<longrightarrow> map_of (h' a) ''original'' = None)
       \<and> (\<forall>t entry k.
             getProp (h a) ''title'' = String t \<and> t \<noteq> [] \<and> api t = Some entry
             \<and> distinct (map fst entry) \<and> k \<noteq> ''title''
             \<and> \<not> (k = ''original'' \<and> truthy (getProp (h' a) ''sources''))
           \<longrightarrow> map_of (h' a) k
               = (case map_of entry k of Some v \<Rightarrow> Some v | None \<Rightarrow> map_of (h a) k))
       \<and> (\<forall>k.
             (\<not> truthy (getProp (h a) ''title'')
              \<or> api (propertyKey rt (getProp (h a) ''title'')) = None)
             \<and> k \<noteq> ''title''
             \<and> \<not> (k = ''original'' \<and> truthy (getProp (h' a) ''sources''))
           \<longrightarrow> map_of (h' a) k = map_of (h a) k)"
proof -
  from combineResponses_spec [OF assms(1)] assms(2)
  have c: "h' a = combineItem rt api (h a)" by simp
  have 1: "map_of (h' a) ''title'' = None"
    unfolding c by (rule combineItem_title)
  have 2: "truthy (getProp (h' a) ''sources'') \<longrightarrow> map_of (h' a) ''original'' = None"
    unfolding c by (blast intro: combineItem_original)
  have 3: "map_of (h' a) k
         = (case map_of entry k of Some v \<Rightarrow> Some v | None \<Rightarrow> map_of (h a) k)"
    if "getProp (h a) ''title'' = String t \<and> t \<noteq> [] \<and> api t = Some entry
        \<and> distinct (map fst entry) \<and> k \<noteq> ''title''
        \<and> \<not> (k = ''original'' \<and> truthy (getProp (h' a) ''sources''))" for t entry k
  proof -
    from that have "map_of (h' a) k = map_of (Object_assign (h a) (Some entry)) k"
      unfolding c by (auto simp: combineItem_other propertyKey_def)
    with that show ?thesis by (simp add: map_of_Object_assign)
  qed
  have 4: "map_of (h' a) k = map_of (h a) k"
    if "(\<not> truthy (getProp (h a) ''title'')
          \<or> api (propertyKey rt (getProp (h a) ''title'')) = None)
        \<and> k \<noteq> ''title''
        \<and> \<not> (k = ''original'' \<and> truthy (getProp (h' a) ''sources''))" for k
    using that unfolding c by (auto simp: combineItem_other Object_assign_def)
  from 1 2 3 4 show ?thesis by blast
qed

text \<open>
  The scenario of the specification: the record of \<^verbatim>\<open>File:Foo.jpg\<close> gets the description
  \<^verbatim>\<open>A foo\<close> and loses its title. The video gets \<^verbatim>\<open>original\<close> from its entry and loses
  it again; the formula, without title, keeps its \<^verbatim>\<open>original\<close>.
\<close>

theorem combineResponses_fields_witness:
  "map_of (fst (combineResponses exampleRuntime exampleApi exampleStore [0, 1, 2]) 0) ''title''
     = None
   \<and> map_of (fst (combineResponses exampleRuntime exampleApi exampleStore [0, 1, 2]) 0)
        ''description'' = Some (String ''A foo'')
   \<and> map_of (fst (combineResponses exampleRuntime exampleApi exampleStore [0, 1, 2]) 0)
        ''caption''
     = Some (Object [(''html'', String ''Hi''), (''text'', String ''Hi'')])
   \<and> truthy (getProp (fst (combineResponses exampleRuntime exampleApi exampleStore [0, 1, 2]) 1)
        ''sources'')
   \<and> map_of (fst (combineResponses exampleRuntime exampleApi exampleStore [0, 1, 2]) 1)
        ''original'' = None
   \<and> map_of (fst (combineResponses exampleRuntime exampleApi exampleStore [0, 1, 2]) 2)
        ''original''
     = Some (Object [(''source'', String ''/math/render/svg/1''),
                     (''mime'', String ''image/svg'')])"
proof -
  let ?h = "fst (combineResponses exampleRuntime exampleApi exampleStore [0, 1, 2])"
  have run: "combineResponses exampleRuntime exampleApi exampleStore [0, 1, 2]
      = (?h, snd (combineResponses exampleRuntime exampleApi exampleStore [0, 1, 2]))"
    by simp
  have mem: "0 \<in> set (snd (combineResponses exampleRuntime exampleApi exampleStore [0, 1, 2]))"
      "1 \<in> set (snd (combineResponses exampleRuntime exampleApi exampleStore [0, 1, 2]))"
      "2 \<in> set (snd (combineResponses exampleRuntime exampleApi exampleStore [0, 1, 2]))"
    by code_simp+
  have foo: "getProp (exampleStore 0) ''title'' = String ''File:Foo.jpg''"
      "exampleApi ''File:Foo.jpg'' = Some [(''description'', String ''A foo'')]"
      "map_of (exampleStore 0) ''caption''
         = Some (Object [(''html'', String ''Hi''), (''text'', String ''Hi'')])"
    by code_simp+
  have clip: "truthy (getProp (?h 1) ''sources'')"
    by code_simp
  have math: "\<not> truthy (getProp (exampleStore 2) ''title'')"
      "\<not> truthy (getProp (?h 2) ''sources'')"
      "map_of (exampleStore 2) ''original''
         = Some (Object [(''source'', String ''/math/render/svg/1''),
                         (''mime'', String ''image/svg'')])"
    by code_simp+
  note f = combineResponses_fields [OF run mem(1)]
  note c = combineResponses_fields [OF run mem(2)]
  note m = combineResponses_fields [OF run mem(3)]
  from f have "map_of (?h 0) ''title'' = None" by blast
  moreover from f foo(1,2)
  have "map_of (?h 0) ''description''
      = (case map_of [(''description'', String ''A foo'')] ''description'' of
           Some v \<Rightarrow> Some v | None \<Rightarrow> map_of (exampleStore 0) ''description'')"
    by (intro f [THEN conjunct2, THEN conjunct2, THEN conjunct1, rule_format,
                 of "''File:Foo.jpg''"]) simp
  then have "map_of (?h 0) ''description'' = Some (String ''A foo'')" by simp
  moreover from f foo(1,2)
  have "map_of (?h 0) ''caption''
      = (case map_of [(''description'', String ''A foo'')] ''caption'' of
           Some v \<Rightarrow> Some v | None \<Rightarrow> map_of (exampleStore 0) ''caption'')"
    by (intro f [THEN conjunct2, THEN conjunct2, THEN conjunct1, rule_format,
                 of "''File:Foo.jpg''"]) simp
  then have "map_of (?h 0) ''caption''
      = Some (Object [(''html'', String ''Hi''), (''text'', String ''Hi'')])"
    using foo(3) by simp
  moreover note clip
  moreover from c clip have "map_of (?h 1) ''original'' = None" by blast
  moreover from math(1,2)
  have "map_of (?h 2) ''original'' = map_of (exampleStore 2) ''original''"
    by (intro m [THEN conjunct2, THEN conjunct2, THEN conjunct2, rule_format]) simp
  then have "map_of (?h 2) ''original''
     = Some (Object [(''source'', String ''/math/render/svg/1''),
                     (''mime'', String ''image/svg'')])"
    using math(3) by simp
  ultimately show ?thesis by blast
qed

text \<open>
  Claim C9, as the code has it. \<open>combineResponses\<close> changes its input records in place:
  it returns the addresses it was given, the record at each of them is replaced by the
  merged one, and no other object of the store changes. The content of the returned
  records depends only on the content of the records given and on the metadata map: two
  runs on records of equal content, wherever they are stored, return records of equal
  content. Extraction is a function of the document and changes nothing.
\<close>

theorem combineResponses_in_place:
  "snd (combineResponses rt api h as) = as
   \<and> (\<forall>a. a \<notin> set as \<longrightarrow> fst (combineResponses rt api h as) a = h a)
   \<and> (\<forall>a \<in> set as. fst (combineResponses rt api h as) a = combineItem rt api (h a))
   \<and> (\<forall>h2 bs. map h2 bs = map h as
        \<longrightarrow> map (fst (combineResponses rt api h2 bs)) (snd (combineResponses rt api h2 bs))
          = map (fst (combineResponses rt api h as)) (snd (combineResponses rt api h as)))"
proof -
  have spec: "snd (combineResponses rt api h as) = as
      \<and> (\<forall>a. fst (combineResponses rt api h as) a
               = (if a \<in> set as then combineItem rt api (h a) else h a))" for h as
    using combineResponses_spec [of rt api h as "fst (combineResponses rt api h as)"
            "snd (combineResponses rt api h as)"]
    by simp
  have out: "map (fst (combineResponses rt api h as)) (snd (combineResponses rt api h as))
      = map (combineItem rt api) (map h as)" for h as
    using spec [of h as] by simp
  have "map (fst (combineResponses rt api h2 bs)) (snd (combineResponses rt api h2 bs))
      = map (fst (combineResponses rt api h as)) (snd (combineResponses rt api h as))"
    if "map h2 bs = map h as" for h2 bs
    unfolding out that ..
  with spec [of h as] show ?thesis by simp
qed

text \<open>
  The claim as stated fails: after the call the record at address 0, which is in the
  input list, has lost its title.
\<close>

theorem combineResponses_counterexample:
  "exampleStore 0 = exampleFoo
   \<and> map_of exampleFoo ''title'' = Some (String ''File:Foo.jpg'')
   \<and> snd (combineResponses exampleRuntime exampleApi exampleStore [0]) = [0]
   \<and> map_of (fst (combineResponses exampleRuntime exampleApi exampleStore [0]) 0) ''title'' = None
   \<and> fst (combineResponses exampleRuntime exampleApi exampleStore [0]) 0 \<noteq> exampleStore 0"
  by code_simp

text \<open>Two runs on the same three records, held at different addresses of two stores.\<close>

theorem combineResponses_in_place_witness:
  "snd (combineResponses exampleRuntime exampleApi exampleStore [0, 1, 2]) = [0, 1, 2]
   \<and> fst (combineResponses exampleRuntime exampleApi exampleStore [0, 1, 2]) 3 = exampleStore 3
   \<and> fst (combineResponses exampleRuntime exampleApi exampleStore [0, 1, 2]) 0
     = combineItem exampleRuntime exampleApi (exampleStore 0)
   \<and> map exampleStore2 [7, 5, 3] = map exampleStore [0, 1, 2]
   \<and> map (fst (combineResponses exampleRuntime exampleApi exampleStore2 [7, 5, 3]))
        (snd (combineResponses exampleRuntime exampleApi exampleStore2 [7, 5, 3]))
     = map (fst (combineResponses exampleRuntime exampleApi exampleStore [0, 1, 2]))
        (snd (combineResponses exampleRuntime exampleApi exampleStore [0, 1, 2]))"
proof -
  have eq: "map exampleStore2 [7, 5, 3] = map exampleStore [0, 1, 2]"
    by code_simp
  have "(3::nat) \<notin> set [0, 1, 2]" "(0::nat) \<in> set [0, 1, 2]"
    by simp_all
  with eq combineResponses_in_place [of exampleRuntime exampleApi exampleStore "[0, 1, 2]"]
  show ?thesis by blast
qed

end
